theory Spec2Isabelle
  imports Complex_Main "HOL-Library.Word"
begin

section \<open>JavaScript values\<close>

text \<open>
  A JavaScript string is a sequence of UTF-16 code units, and \<open>length\<close> counts code units.
  Property names, field paths and error type names are plain ASCII and are kept as HOL strings.
\<close>

type_synonym jsstring = "16 word list"

definition ascii :: "string \<Rightarrow> jsstring" where
  "ascii s = map (\<lambda>c. of_nat (of_char c)) s"

text \<open>
  A request body as \<open>express.json()\<close> delivers it: a JSON value. An object is an association
  list, the first pair of a name being the property; \<open>map_of\<close> reads a property, \<open>None\<close>
  standing for \<open>undefined\<close> (the property is absent). JSON has no \<open>undefined\<close>, so a
  property that is present always has a value.
\<close>

datatype json =
    JNull
  | JBool bool
  | JNum real
  | JStr jsstring
  | JArr "json list"
  | JObj "(string \<times> json) list"

text \<open>\<open>String.prototype.trim\<close>: strips WhiteSpace and LineTerminator code points at both ends.\<close>

definition isWhiteSpace :: "16 word \<Rightarrow> bool" where
  "isWhiteSpace c \<longleftrightarrow>
     c \<in> {0x0009, 0x000A, 0x000B, 0x000C, 0x000D, 0x0020, 0x00A0, 0x1680,
          0x2028, 0x2029, 0x202F, 0x205F, 0x3000, 0xFEFF}
     \<or> (0x2000 \<le> c \<and> c \<le> 0x200A)"

definition trim :: "jsstring \<Rightarrow> jsstring" where
  "trim s = rev (dropWhile isWhiteSpace (rev (dropWhile isWhiteSpace s)))"

section \<open>Schema validation (\<open>src/types/task.types.ts\<close>)\<close>

text \<open>
  The schemas are chains of the validation library's combinators. Each combinator is modelled
  by what it does to one input: a value schema maps the property's value (\<open>None\<close> when the
  property is absent) to the list of issue messages, or to the parsed value when there is none.
  A message is either the text the schema passes to the combinator, or the library's own
  default text, which the repository does not fix.
\<close>

datatype zmessage = Custom jsstring | LibraryDefault

text \<open>An issue is a path into the payload and a message; a detail is \<open>{field, message}\<close>.\<close>

type_synonym issue = "string list \<times> zmessage"
type_synonym detail = "string \<times> zmessage"

text \<open>
  The checks of a string schema run in the order of the chain. \<open>.min\<close> and \<open>.max\<close> compare
  \<open>length\<close> of the string as it is when the check runs and add an issue without stopping the
  chain; \<open>.trim()\<close> replaces the string by its trimmed form for the checks after it and for
  the result.
\<close>

datatype check = Min nat jsstring | Max nat jsstring | Trim

fun run_checks :: "check list \<Rightarrow> jsstring \<Rightarrow> zmessage list \<times> jsstring" where
  "run_checks [] s = ([], s)"
| "run_checks (Min n m # cs) s =
     (let (ms, s') = run_checks cs s
      in ((if length s < n then [Custom m] else []) @ ms, s'))"
| "run_checks (Max n m # cs) s =
     (let (ms, s') = run_checks cs s
      in ((if n < length s then [Custom m] else []) @ ms, s'))"
| "run_checks (Trim # cs) s = run_checks cs (trim s)"

fun z_string :: "jsstring \<Rightarrow> check list \<Rightarrow> json option \<Rightarrow> zmessage list + jsstring" where
  "z_string m cs (Some (JStr s)) =
     (case run_checks cs s of ([], s') \<Rightarrow> Inr s' | (i # is, s') \<Rightarrow> Inl (i # is))"
| "z_string m cs _ = Inl [Custom m]"

fun z_boolean :: "jsstring \<Rightarrow> json option \<Rightarrow> zmessage list + bool" where
  "z_boolean m (Some (JBool b)) = Inr b"
| "z_boolean m _ = Inl [Custom m]"

definition z_optional ::
  "(json option \<Rightarrow> zmessage list + 'a) \<Rightarrow> json option \<Rightarrow> zmessage list + 'a option" where
  "z_optional p v = (case v of None \<Rightarrow> Inr None | Some _ \<Rightarrow> map_sum (\<lambda>ms. ms) Some (p v))"

definition z_default ::
  "'a \<Rightarrow> (json option \<Rightarrow> zmessage list + 'a option) \<Rightarrow> json option \<Rightarrow> zmessage list + 'a" where
  "z_default d p v =
     (case v of
        None \<Rightarrow> Inr d
      | Some _ \<Rightarrow> (case p v of Inl ms \<Rightarrow> Inl ms | Inr None \<Rightarrow> Inr d | Inr (Some x) \<Rightarrow> Inr x))"

text \<open>The issues of one property of an object schema, each under the property's name.\<close>

definition issues_at :: "string \<Rightarrow> zmessage list + 'a \<Rightarrow> issue list" where
  "issues_at k r = (case r of Inl ms \<Rightarrow> map (\<lambda>m. ([k], m)) ms | Inr _ \<Rightarrow> [])"

subsection \<open>The messages of the two schemas\<close>

definition msg_title_string :: jsstring where
  "msg_title_string = ascii ''O campo title deve ser uma string''"

definition msg_title_empty :: jsstring where
  "msg_title_empty = ascii ''O campo title n'' @ [0xE3] @ ascii ''o pode estar vazio''"

definition msg_title_max :: jsstring where
  "msg_title_max = ascii ''O campo title deve ter no m'' @ [0xE1] @ ascii ''ximo 255 caracteres''"

definition msg_description_string :: jsstring where
  "msg_description_string = ascii ''O campo description deve ser uma string''"

definition msg_completed_boolean :: jsstring where
  "msg_completed_boolean = ascii ''O campo completed deve ser um boolean''"

definition msg_update_empty :: jsstring where
  "msg_update_empty =
     ascii ''Pelo menos um campo deve ser fornecido para atualiza'' @ [0xE7, 0xE3] @ ascii ''o''"

subsection \<open>\<open>createTaskSchema\<close>\<close>

text \<open>
  \<open>CreateTaskRequest\<close>. The schema always outputs a boolean \<open>completed\<close>; the controller also
  accepts a request without it (\<open>data.completed ?? false\<close>), hence the option.
\<close>

record create_request =
  req_title :: jsstring
  req_description :: "jsstring option"
  req_completed :: "bool option"

definition title_schema :: "json option \<Rightarrow> zmessage list + jsstring" where
  "title_schema = z_string msg_title_string [Min 1 msg_title_empty, Max 255 msg_title_max, Trim]"

definition description_schema :: "json option \<Rightarrow> zmessage list + jsstring option" where
  "description_schema = z_optional (z_string msg_description_string [])"

definition completed_schema :: "json option \<Rightarrow> zmessage list + bool option" where
  "completed_schema = z_optional (z_boolean msg_completed_boolean)"

text \<open>
  \<open>z.object\<close>: a payload that is not an object is one issue at the empty path; otherwise the
  properties of the shape are parsed in the order of the shape, other properties are dropped,
  and the parse fails with all the issues found.
\<close>

definition createTaskSchema :: "json \<Rightarrow> issue list + create_request" where
  "createTaskSchema body =
     (case body of
        JObj props \<Rightarrow>
          (let t = title_schema (map_of props ''title'');
               d = description_schema (map_of props ''description'');
               c = z_default False completed_schema (map_of props ''completed'')
           in case (t, d, c) of
                (Inr t', Inr d', Inr c') \<Rightarrow>
                  Inr \<lparr>req_title = t', req_description = d', req_completed = Some c'\<rparr>
              | _ \<Rightarrow>
                  Inl (issues_at ''title'' t @ issues_at ''description'' d @ issues_at ''completed'' c))
      | _ \<Rightarrow> Inl [([], LibraryDefault)])"

subsection \<open>\<open>updateTaskSchema\<close>\<close>

record update_request =
  upd_title :: "jsstring option"
  upd_description :: "jsstring option"
  upd_completed :: "bool option"

text \<open>\<open>Object.keys(data)\<close>: the schema's output has a key for each property that was supplied.\<close>

definition object_keys :: "update_request \<Rightarrow> string list" where
  "object_keys data =
     (case upd_title data of None \<Rightarrow> [] | Some _ \<Rightarrow> [''title'']) @
     (case upd_description data of None \<Rightarrow> [] | Some _ \<Rightarrow> [''description'']) @
     (case upd_completed data of None \<Rightarrow> [] | Some _ \<Rightarrow> [''completed''])"

text \<open>
  The \<open>.refine\<close> predicate is evaluated on the output of the object schema. When a property
  has an issue the property is present, so the predicate could only hold there: evaluating it
  only when the properties parsed gives the same issues.
\<close>

definition updateTaskSchema :: "json \<Rightarrow> issue list + update_request" where
  "updateTaskSchema body =
     (case body of
        JObj props \<Rightarrow>
          (let t = z_optional title_schema (map_of props ''title'');
               d = description_schema (map_of props ''description'');
               c = completed_schema (map_of props ''completed'')
           in case (t, d, c) of
                (Inr t', Inr d', Inr c') \<Rightarrow>
                  (let data = \<lparr>upd_title = t', upd_description = d', upd_completed = c'\<rparr>
                   in if length (object_keys data) > 0 then Inr data
                      else Inl [([], Custom msg_update_empty)])
              | _ \<Rightarrow>
                  Inl (issues_at ''title'' t @ issues_at ''description'' d @ issues_at ''completed'' c))
      | _ \<Rightarrow> Inl [([], LibraryDefault)])"

section \<open>Validation middleware (\<open>src/middleware/validation.ts\<close>)\<close>

definition msg_invalid_data :: jsstring where
  "msg_invalid_data = ascii ''Dados de entrada inv'' @ [0xE1] @ ascii ''lidos''"

definition msg_invalid_id :: jsstring where
  "msg_invalid_id = ascii ''ID de tarefa inv'' @ [0xE1] @ ascii ''lido''"

definition msg_id_positive :: jsstring where
  "msg_id_positive = ascii ''O ID deve ser um n'' @ [0xFA] @ ascii ''mero inteiro positivo''"

text \<open>The body of a 400 response: \<open>{error, message, details}\<close>.\<close>

record validation_body =
  vb_error :: string
  vb_message :: jsstring
  vb_details :: "detail list"

text \<open>
  What a middleware does with a request: it calls \<open>next()\<close>, having replaced the validated part
  of the request, or it answers with a status and a body.
\<close>

datatype 'a outcome = Next 'a | Respond nat validation_body

fun join_dot :: "string list \<Rightarrow> string" where
  "join_dot [] = []"
| "join_dot [a] = a"
| "join_dot (a # b # r) = a @ ''.'' @ join_dot (b # r)"

text \<open>
  \<open>validateRequest(schema)\<close>. The schemas raise nothing but their issues, so the branch for an
  unexpected exception (500) has no input that reaches it.
\<close>

definition validateRequest :: "(json \<Rightarrow> issue list + 'a) \<Rightarrow> json \<Rightarrow> 'a outcome" where
  "validateRequest schema body =
     (case schema body of
        Inr validatedData \<Rightarrow> Next validatedData
      | Inl issues \<Rightarrow>
          Respond 400
            \<lparr>vb_error = ''ValidationError'',
             vb_message = msg_invalid_data,
             vb_details = map (\<lambda>(p, m). (join_dot p, m)) issues\<rparr>)"

definition validateCreateTask :: "json \<Rightarrow> create_request outcome" where
  "validateCreateTask = validateRequest createTaskSchema"

definition validateUpdateTask :: "json \<Rightarrow> update_request outcome" where
  "validateUpdateTask = validateRequest updateTaskSchema"

subsection \<open>\<open>validateTaskId\<close>\<close>

text \<open>\<open>/^\d+$/.test(s)\<close>: one or more of the digits 0 to 9, and nothing else.\<close>

definition isDigit :: "16 word \<Rightarrow> bool" where
  "isDigit c \<longleftrightarrow> 0x30 \<le> c \<and> c \<le> 0x39"

definition digits_only :: "jsstring \<Rightarrow> bool" where
  "digits_only s \<longleftrightarrow> s \<noteq> [] \<and> list_all isDigit s"

text \<open>
  A JavaScript number holds every integer up to \<open>2 ^ 53\<close> exactly. Above that \<open>parseInt\<close>
  rounds (and may approximate long digit strings), so such a number is \<open>Inexact\<close>: it is
  known to be greater than zero, and nothing else about it is modelled.
\<close>

datatype number = Exact nat | Inexact

definition digit_value :: "16 word \<Rightarrow> nat" where
  "digit_value c = unat c - 48"

definition decimal :: "jsstring \<Rightarrow> nat" where
  "decimal s = foldl (\<lambda>a c. 10 * a + digit_value c) 0 s"

text \<open>\<open>parseInt(s, 10)\<close>, which is only called on strings of digits.\<close>

definition parseInt10 :: "jsstring \<Rightarrow> number" where
  "parseInt10 s = (let n = decimal s in if n \<le> 2 ^ 53 then Exact n else Inexact)"

fun le_zero :: "number \<Rightarrow> bool" where
  "le_zero (Exact n) = (n \<le> 0)"
| "le_zero Inexact = False"

definition digit_char :: "nat \<Rightarrow> 16 word" where
  "digit_char d = of_nat (48 + d)"

function digits :: "nat \<Rightarrow> jsstring" where
  "digits n = (if n < 10 then [digit_char n] else digits (n div 10) @ [digit_char (n mod 10)])"
  by pat_completeness auto
termination
  by (relation "measure (\<lambda>n. n)") auto

declare digits.simps [simp del]

text \<open>\<open>id.toString()\<close>; \<open>None\<close> where the number, and so its string, is not modelled.\<close>

fun number_toString :: "number \<Rightarrow> jsstring option" where
  "number_toString (Exact n) = Some (digits n)"
| "number_toString Inexact = None"

definition invalid_id_body :: validation_body where
  "invalid_id_body =
     \<lparr>vb_error = ''ValidationError'',
      vb_message = msg_invalid_id,
      vb_details = [(''id'', Custom msg_id_positive)]\<rparr>"

text \<open>The outcome \<open>Next p\<close> is \<open>next()\<close> with \<open>req.params.id\<close> replaced by \<open>p\<close>.\<close>

definition validateTaskId :: "jsstring \<Rightarrow> jsstring option outcome" where
  "validateTaskId idParam =
     (if \<not> digits_only idParam then Respond 400 invalid_id_body
      else let id = parseInt10 idParam
           in if le_zero id then Respond 400 invalid_id_body
              else Next (number_toString id))"

section \<open>Error handling (\<open>src/middleware/errorHandler.ts\<close>)\<close>

text \<open>\<open>CustomError\<close>: an \<open>Error\<close> with an optional status code and optional details of any type.\<close>

record custom_error =
  err_message :: jsstring
  err_statusCode :: "int option"
  err_details :: "json option"
  err_stack :: "jsstring option"

text \<open>What \<open>if (x)\<close> and \<open>x || y\<close> test on a value.\<close>

fun truthy :: "json \<Rightarrow> bool" where
  "truthy JNull = False"
| "truthy (JBool b) = b"
| "truthy (JNum x) = (x \<noteq> 0)"
| "truthy (JStr s) = (s \<noteq> [])"
| "truthy (JArr xs) = True"
| "truthy (JObj ps) = True"

record error_response =
  error :: string
  message :: jsstring
  details :: "json option"
  stack :: "jsstring option"

datatype log_level = LogError | LogWarn

text \<open>
  The handler either passes the error on (\<open>next(err)\<close>, when the response has begun), or logs
  at some level and answers: \<open>Sent l code body\<close> is the call \<open>res.status(code).json(body)\<close>
  after logging at level \<open>l\<close>. \<open>res.status(code)\<close> raises a \<open>RangeError\<close> for a code below 100 or
  above 999: then the error was logged, if its level says so, and nothing is sent. What the
  framework writes for a status that carries no body (below 200, 204, 205, 304) or for a
  \<open>HEAD\<close> request is not modelled.
\<close>

datatype handled =
    Delegated custom_error
  | Sent "log_level option" int error_response
  | StatusRangeError "log_level option" int

definition msg_default_error :: jsstring where
  "msg_default_error =
     ascii ''Ocorreu um erro ao processar a requisi'' @ [0xE7, 0xE3] @ ascii ''o''"

definition errorHandler :: "bool \<Rightarrow> jsstring option \<Rightarrow> custom_error \<Rightarrow> handled" where
  "errorHandler headersSent node_env err =
     (if headersSent then Delegated err
      else
        let statusCode = (case err_statusCode err of
                            None \<Rightarrow> 500
                          | Some c \<Rightarrow> if c = 0 then 500 else c);
            errorType = (if statusCode = 400 then ''ValidationError''
                         else if statusCode = 404 then ''NotFoundError''
                         else ''InternalServerError'');
            logged = (if statusCode \<ge> 500 then Some LogError
                      else if statusCode \<ge> 400 then Some LogWarn
                      else None)
        in if statusCode < 100 \<or> 999 < statusCode then StatusRangeError logged statusCode
           else
             Sent logged statusCode
               \<lparr>error = errorType,
                message = (if err_message err = [] then msg_default_error else err_message err),
                details = (case err_details err of
                             None \<Rightarrow> None
                           | Some d \<Rightarrow> if truthy d then Some d else None),
                stack = (if node_env = Some (ascii ''development'') \<and> statusCode \<ge> 500
                         then err_stack err else None)\<rparr>)"

text \<open>\<open>createError\<close>; the trace is the stack that \<open>new Error\<close> records.\<close>

definition createError :: "jsstring \<Rightarrow> jsstring \<Rightarrow> int \<Rightarrow> json option \<Rightarrow> custom_error" where
  "createError trace msg statusCode dets =
     \<lparr>err_message = msg,
      err_statusCode = Some statusCode,
      err_details = (case dets of None \<Rightarrow> None | Some d \<Rightarrow> if truthy d then Some d else None),
      err_stack = Some trace\<rparr>"

text \<open>\<open>String.prototype.includes\<close>.\<close>

fun starts_with :: "'a list \<Rightarrow> 'a list \<Rightarrow> bool" where
  "starts_with s [] = True"
| "starts_with [] (p # ps) = False"
| "starts_with (c # cs) (p # ps) = (c = p \<and> starts_with cs ps)"

fun includes_js :: "'a list \<Rightarrow> 'a list \<Rightarrow> bool" where
  "includes_js [] sub = (sub = [])"
| "includes_js (c # cs) sub = (starts_with (c # cs) sub \<or> includes_js cs sub)"

text \<open>An error raised by the database driver: what \<open>handleDatabaseError\<close> reads of it.\<close>

record driver_error =
  drv_message :: "jsstring option"
  drv_code :: "jsstring option"

definition handleDatabaseError :: "jsstring \<Rightarrow> driver_error \<Rightarrow> custom_error" where
  "handleDatabaseError trace e =
     (if (case drv_message e of None \<Rightarrow> False
          | Some m \<Rightarrow> m \<noteq> [] \<and> includes_js m (ascii ''connection''))
      then createError trace (ascii ''Erro ao conectar com o banco de dados'') 500
             (Some (JObj [(''type'', JStr (ascii ''database_connection_error''))]))
      else if drv_code e = Some (ascii ''23502'')
      then createError trace
             (ascii ''Dados obrigat'' @ [0xF3] @ ascii ''rios n'' @ [0xE3] @ ascii ''o fornecidos'') 400
             (Some (JObj [(''type'', JStr (ascii ''constraint_violation'')),
                          (''code'', JStr (ascii ''23502''))]))
      else if drv_code e = Some (ascii ''23505'')
      then createError trace (ascii ''Registro duplicado'') 400
             (Some (JObj [(''type'', JStr (ascii ''constraint_violation'')),
                          (''code'', JStr (ascii ''23505''))]))
      else createError trace
             (ascii ''Erro ao processar opera'' @ [0xE7, 0xE3] @ ascii ''o no banco de dados'') 500
             (Some (JObj [(''type'', JStr (ascii ''database_error''))])))"

section \<open>The table (\<open>src/db/schema.ts\<close>)\<close>

text \<open>
  A row of \<open>tasks\<close>. \<open>task_id\<close> is the column \<open>id\<close>; a \<open>null\<close> description is \<open>None\<close>.
  Timestamps are instants on one time line, in whatever unit the clocks count.
\<close>

type_synonym timestamp = int

record task =
  task_id :: int
  title :: jsstring
  description :: "jsstring option"
  completed :: bool
  createdAt :: timestamp
  updatedAt :: timestamp

text \<open>
  The storage engine is not part of the repository; it is modelled by what the controller
  relies on. The table is the list of its rows in the order a \<open>select\<close> without \<open>order by\<close>
  yields them: an insert appends, an update rewrites rows in place, a delete removes rows.
  \<open>last_id\<close> is the last value the sequence of the \<open>serial\<close> column gave out; it only grows,
  up to 2147483647, where the sequence is exhausted.
  \<open>fault\<close> is the message of the error every statement raises while the connection is down.
  The column \<open>id\<close> is a 32-bit signed integer: a statement that compares it with a number
  outside that range is rejected.
  Rejections of the engine other than these and the primary key (a title longer than the
  column, a character the encoding refuses) are not modelled.
\<close>

record database =
  rows :: "task list"
  last_id :: nat
  fault :: "jsstring option"

definition empty_db :: database where
  "empty_db = \<lparr>rows = [], last_id = 0, fault = None\<rparr>"

datatype js_error = Error jsstring

definition msg_duplicate_key :: jsstring where
  "msg_duplicate_key =
     ascii ''duplicate key value violates unique constraint '' @ [0x22] @ ascii ''tasks_pkey'' @ [0x22]"

definition msg_sequence_exhausted :: jsstring where
  "msg_sequence_exhausted =
     ascii ''nextval: reached maximum value of sequence '' @ [0x22] @ ascii ''tasks_id_seq''
       @ [0x22] @ ascii '' (2147483647)''"

text \<open>The range of the column \<open>id\<close>, and the error for a number outside it.\<close>

definition int4 :: "int \<Rightarrow> bool" where
  "int4 i \<longleftrightarrow> - 2147483648 \<le> i \<and> i \<le> 2147483647"

definition int_text :: "int \<Rightarrow> jsstring" where
  "int_text i = (if i < 0 then ascii ''-'' @ digits (nat (- i)) else digits (nat i))"

definition msg_out_of_range :: "int \<Rightarrow> jsstring" where
  "msg_out_of_range i =
     ascii ''value '' @ [0x22] @ int_text i @ [0x22] @ ascii '' is out of range for type integer''"


text \<open>\<open>db.select().from(tasks).where(eq(tasks.id, id)).limit(1)\<close>\<close>

definition select_where_id_limit1 :: "int \<Rightarrow> database \<Rightarrow> js_error + task list" where
  "select_where_id_limit1 i db =
     (case fault db of
        Some m \<Rightarrow> Inl (Error m)
      | None \<Rightarrow>
          if \<not> int4 i then Inl (Error (msg_out_of_range i))
          else Inr (take 1 (filter (\<lambda>r. task_id r = i) (rows db))))"

text \<open>\<open>CreateTaskInput\<close>, as \<open>create\<close> fills it: the other columns take their defaults.\<close>

record insert_values =
  ins_title :: jsstring
  ins_description :: "jsstring option"
  ins_completed :: bool

text \<open>
  \<open>db.insert(tasks).values(v).returning()\<close>. The id is the next value of the sequence, which
  is used up even when the primary key then rejects the row; an exhausted sequence gives no
  value and the insert is rejected. \<open>created_at\<close> and \<open>updated_at\<close> both default to \<open>now()\<close>,
  the same instant \<open>now\<close> of the engine's clock.
\<close>

definition insert_returning ::
  "timestamp \<Rightarrow> insert_values \<Rightarrow> database \<Rightarrow> (js_error + task list) \<times> database" where
  "insert_returning now v db =
     (case fault db of
        Some m \<Rightarrow> (Inl (Error m), db)
      | None \<Rightarrow>
          if 2147483647 \<le> last_id db then (Inl (Error msg_sequence_exhausted), db)
          else
            (let i = int (Suc (last_id db));
                 row = \<lparr>task_id = i, title = ins_title v, description = ins_description v,
                        completed = ins_completed v, createdAt = now, updatedAt = now\<rparr>
             in if i \<in> task_id ` set (rows db)
                then (Inl (Error msg_duplicate_key), db\<lparr>last_id := Suc (last_id db)\<rparr>)
                else (Inr [row], db\<lparr>rows := rows db @ [row], last_id := Suc (last_id db)\<rparr>)))"

text \<open>\<open>UpdateTaskInput\<close>: each column is set only when its property is there.\<close>

record update_values =
  set_title :: "jsstring option"
  set_description :: "jsstring option option"
  set_completed :: "bool option"
  set_updatedAt :: "timestamp option"

definition apply_set :: "update_values \<Rightarrow> task \<Rightarrow> task" where
  "apply_set u r =
     r\<lparr>title := (case set_title u of None \<Rightarrow> title r | Some x \<Rightarrow> x),
       description := (case set_description u of None \<Rightarrow> description r | Some x \<Rightarrow> x),
       completed := (case set_completed u of None \<Rightarrow> completed r | Some x \<Rightarrow> x),
       updatedAt := (case set_updatedAt u of None \<Rightarrow> updatedAt r | Some x \<Rightarrow> x)\<rparr>"

text \<open>\<open>db.update(tasks).set(u).where(eq(tasks.id, id)).returning()\<close>\<close>

definition update_returning ::
  "update_values \<Rightarrow> int \<Rightarrow> database \<Rightarrow> (js_error + task list) \<times> database" where
  "update_returning u i db =
     (case fault db of
        Some m \<Rightarrow> (Inl (Error m), db)
      | None \<Rightarrow>
          if \<not> int4 i then (Inl (Error (msg_out_of_range i)), db)
          else
            (let rows' = map (\<lambda>r. if task_id r = i then apply_set u r else r) (rows db)
             in (Inr (filter (\<lambda>r. task_id r = i) rows'), db\<lparr>rows := rows'\<rparr>)))"

text \<open>\<open>db.delete(tasks).where(eq(tasks.id, id)).returning()\<close>\<close>

definition delete_returning :: "int \<Rightarrow> database \<Rightarrow> (js_error + task list) \<times> database" where
  "delete_returning i db =
     (case fault db of
        Some m \<Rightarrow> (Inl (Error m), db)
      | None \<Rightarrow>
          if \<not> int4 i then (Inl (Error (msg_out_of_range i)), db)
          else
            (Inr (filter (\<lambda>r. task_id r = i) (rows db)),
             db\<lparr>rows := filter (\<lambda>r. task_id r \<noteq> i) (rows db)\<rparr>))"

section \<open>The task controller\<close>


definition findById :: "int \<Rightarrow> database \<Rightarrow> js_error + task option" where
  "findById i db =
     (case select_where_id_limit1 i db of
        Inl (Error m) \<Rightarrow> Inl (Error (ascii ''Erro ao buscar tarefa por ID: '' @ m))
      | Inr result \<Rightarrow> Inr (case result of [] \<Rightarrow> None | r # _ \<Rightarrow> Some r))"

definition create ::
  "timestamp \<Rightarrow> create_request \<Rightarrow> database \<Rightarrow> (js_error + task) \<times> database" where
  "create now data db =
     (let insertData =
            \<lparr>ins_title = req_title data,
             ins_description = (case req_description data of
                                  None \<Rightarrow> None
                                | Some d \<Rightarrow> if d = [] then None else Some d),
             ins_completed = (case req_completed data of None \<Rightarrow> False | Some b \<Rightarrow> b)\<rparr>
      in case insert_returning now insertData db of
           (Inl (Error m), db') \<Rightarrow> (Inl (Error (ascii ''Erro ao criar tarefa: '' @ m)), db')
         | (Inr [], db') \<Rightarrow>
             (Inl (Error (ascii ''Erro ao criar tarefa: ''
                          @ ascii ''Falha ao criar tarefa: nenhum registro retornado'')), db')
         | (Inr (r # _), db') \<Rightarrow> (Inr r, db'))"

text \<open>\<open>update\<close>; \<open>now\<close> is what \<open>new Date()\<close> reads from the server's clock.\<close>

definition update ::
  "int \<Rightarrow> update_request \<Rightarrow> timestamp \<Rightarrow> database \<Rightarrow> (js_error + task option) \<times> database" where
  "update i data now db =
     (case findById i db of
        Inl (Error m) \<Rightarrow> (Inl (Error (ascii ''Erro ao atualizar tarefa: '' @ m)), db)
      | Inr None \<Rightarrow> (Inr None, db)
      | Inr (Some existingTask) \<Rightarrow>
          (let updateData =
                 \<lparr>set_title = upd_title data,
                  set_description = map_option Some (upd_description data),
                  set_completed = upd_completed data,
                  set_updatedAt = Some now\<rparr>
           in case update_returning updateData i db of
                (Inl (Error m), db') \<Rightarrow>
                  (Inl (Error (ascii ''Erro ao atualizar tarefa: '' @ m)), db')
              | (Inr [], db') \<Rightarrow> (Inr None, db')
              | (Inr (r # _), db') \<Rightarrow> (Inr (Some r), db')))"

definition deleteTask :: "int \<Rightarrow> database \<Rightarrow> (js_error + bool) \<times> database" where
  "deleteTask i db =
     (case findById i db of
        Inl (Error m) \<Rightarrow> (Inl (Error (ascii ''Erro ao deletar tarefa: '' @ m)), db)
      | Inr None \<Rightarrow> (Inr False, db)
      | Inr (Some existingTask) \<Rightarrow>
          (case delete_returning i db of
             (Inl (Error m), db') \<Rightarrow> (Inl (Error (ascii ''Erro ao deletar tarefa: '' @ m)), db')
           | (Inr result, db') \<Rightarrow> (Inr (length result > 0), db')))"


section \<open>Predicates of the statements\<close>

text \<open>A property of a payload; a payload that is not an object has none.\<close>

fun property :: "json \<Rightarrow> string \<Rightarrow> json option" where
  "property (JObj props) k = map_of props k"
| "property _ k = None"

text \<open>A property that is absent or a string, absent or a boolean; and the value it then has.\<close>

fun opt_string :: "json option \<Rightarrow> bool" where
  "opt_string None = True"
| "opt_string (Some (JStr s)) = True"
| "opt_string _ = False"

fun opt_boolean :: "json option \<Rightarrow> bool" where
  "opt_boolean None = True"
| "opt_boolean (Some (JBool s)) = True"
| "opt_boolean _ = False"

fun string_of :: "json option \<Rightarrow> jsstring option" where
  "string_of (Some (JStr s)) = Some s"
| "string_of _ = None"

fun boolean_of :: "json option \<Rightarrow> bool option" where
  "boolean_of (Some (JBool b)) = Some b"
| "boolean_of _ = None"

text \<open>
  The rule of \<open>title\<close> as the specification words it, for a title that need not be there:
  absent, or a string whose trimmed length is 1 to 255.
\<close>

fun title_rule :: "json option \<Rightarrow> bool" where
  "title_rule None = True"
| "title_rule (Some (JStr s)) \<longleftrightarrow> 1 \<le> length (trim s) \<and> length (trim s) \<le> 255"
| "title_rule _ = False"

text \<open>What the chain of the title schema lets through: a string of 1 to 255 code units, untrimmed.\<close>

fun title_passes :: "json option \<Rightarrow> bool" where
  "title_passes None = True"
| "title_passes (Some (JStr s)) \<longleftrightarrow> 1 \<le> length s \<and> length s \<le> 255"
| "title_passes _ = False"

text \<open>
  The middleware answered 400 with a \<open>ValidationError\<close>; and it did so with a detail for the
  field \<open>f\<close> carrying the message \<open>m\<close>.
\<close>

fun fails_validation :: "'a outcome \<Rightarrow> bool" where
  "fails_validation (Respond c b) \<longleftrightarrow> c = 400 \<and> vb_error b = ''ValidationError''"
| "fails_validation (Next v) \<longleftrightarrow> False"

fun cites :: "'a outcome \<Rightarrow> string \<Rightarrow> jsstring \<Rightarrow> bool" where
  "cites (Respond c b) f m \<longleftrightarrow>
     c = 400 \<and> vb_error b = ''ValidationError'' \<and> (f, Custom m) \<in> set (vb_details b)"
| "cites (Next v) f m \<longleftrightarrow> False"

text \<open>The pattern \<open>^[1-9]\d*$\<close>.\<close>

fun positive_pattern :: "jsstring \<Rightarrow> bool" where
  "positive_pattern [] = False"
| "positive_pattern (c # cs) \<longleftrightarrow> 0x31 \<le> c \<and> c \<le> 0x39 \<and> list_all isDigit cs"

text \<open>
  The connection is up, the sequence is ahead of every id in the table, as it is in a table
  whose ids all came from the sequence, and the sequence is not exhausted.
\<close>

definition healthy :: "database \<Rightarrow> bool" where
  "healthy db \<longleftrightarrow>
     fault db = None \<and> list_all (\<lambda>r. task_id r \<le> int (last_id db)) (rows db)
     \<and> last_id db < 2147483647"

text \<open>The row \<open>create\<close> hands to the insert, and the values \<open>update\<close> hands to its statement.\<close>

definition created_row :: "timestamp \<Rightarrow> create_request \<Rightarrow> database \<Rightarrow> task" where
  "created_row now data db =
     \<lparr>task_id = int (Suc (last_id db)),
      title = req_title data,
      description = (case req_description data of
                       None \<Rightarrow> None
                     | Some d \<Rightarrow> if d = [] then None else Some d),
      completed = (case req_completed data of None \<Rightarrow> False | Some b \<Rightarrow> b),
      createdAt = now, updatedAt = now\<rparr>"

definition update_values_of :: "update_request \<Rightarrow> timestamp \<Rightarrow> update_values" where
  "update_values_of data now =
     \<lparr>set_title = upd_title data, set_description = map_option Some (upd_description data),
      set_completed = upd_completed data, set_updatedAt = Some now\<rparr>"

text \<open>
  The create command \<open>{title: "Buy milk", completed: false}\<close>, the task it becomes in an empty
  table at the instant 1000, and the table then.
\<close>

definition buy_milk :: create_request where
  "buy_milk = \<lparr>req_title = ascii ''Buy milk'', req_description = None, req_completed = Some False\<rparr>"

definition milk :: task where
  "milk = \<lparr>task_id = 1, title = ascii ''Buy milk'', description = None, completed = False,
           createdAt = 1000, updatedAt = 1000\<rparr>"

definition milk_db :: database where
  "milk_db = \<lparr>rows = [milk], last_id = 1, fault = None\<rparr>"

section \<open>The create schema\<close>

lemma title_schema_string:
  "title_schema (Some (JStr s)) =
     (if s = [] then Inl [Custom msg_title_empty]
      else if 255 < length s then Inl [Custom msg_title_max]
      else Inr (trim s))"
  by (simp add: title_schema_def)

lemma description_schema_eq:
  "description_schema v =
     (if opt_string v then Inr (string_of v) else Inl [Custom msg_description_string])"
  by (cases v rule: opt_string.cases) (simp_all add: description_schema_def z_optional_def)

lemma completed_schema_eq:
  "completed_schema v =
     (if opt_boolean v then Inr (boolean_of v) else Inl [Custom msg_completed_boolean])"
  by (cases v rule: opt_boolean.cases) (simp_all add: completed_schema_def z_optional_def)

lemma title_schema_eq:
  "title_schema v =
     (case string_of v of
        None \<Rightarrow> Inl [Custom msg_title_string]
      | Some s \<Rightarrow>
          if s = [] then Inl [Custom msg_title_empty]
          else if 255 < length s then Inl [Custom msg_title_max]
          else Inr (trim s))"
  by (cases v rule: string_of.cases) (simp_all add: title_schema_string, simp_all add: title_schema_def)

lemma createTaskSchema_eq:
  "createTaskSchema (JObj props) =
     (let t = title_schema (map_of props ''title'');
          d = map_of props ''description'';
          c = map_of props ''completed''
      in if isl t \<or> \<not> opt_string d \<or> \<not> opt_boolean c
         then Inl (issues_at ''title'' t
                 @ (if opt_string d then [] else [([''description''], Custom msg_description_string)])
                 @ (if opt_boolean c then [] else [([''completed''], Custom msg_completed_boolean)]))
         else Inr \<lparr>req_title = projr t, req_description = string_of d,
                   req_completed = Some (case boolean_of c of None \<Rightarrow> False | Some b \<Rightarrow> b)\<rparr>)"
  by (simp add: createTaskSchema_def Let_def description_schema_eq completed_schema_eq
      z_default_def issues_at_def split: sum.splits option.splits)

lemma validateCreateTask_eq:
  "validateCreateTask (JObj props) =
     (case createTaskSchema (JObj props) of
        Inr r \<Rightarrow> Next r
      | Inl issues \<Rightarrow>
          Respond 400 \<lparr>vb_error = ''ValidationError'', vb_message = msg_invalid_data,
                       vb_details = map (\<lambda>(p, m). (join_dot p, m)) issues\<rparr>)"
  by (simp add: validateCreateTask_def validateRequest_def)

text \<open>
  Claim C1, as the code has it. \<open>validateCreate\<close> checks the length of the title before it
  trims it. A payload is accepted, with the title trimmed, a missing \<open>completed\<close> read as
  false and \<open>description\<close> kept when present, if its title is a string of at most 255 code
  units whose trimmed form is not empty, its description is absent or a string and its
  \<open>completed\<close> is absent or a boolean. It fails with a \<open>ValidationError\<close> citing \<open>title\<close>
  when the title is missing or not a string, is the empty string, or is longer than 255 code
  units as supplied; citing \<open>description\<close> for a description that is not a string; citing
  \<open>completed\<close> for a \<open>completed\<close> that is not a boolean. Every accepted payload has a string
  title of 1 to 255 code units and returns it trimmed.
\<close>

theorem validateCreateTask_spec:
  "(map_of props ''title'' = Some (JStr s) \<and> 1 \<le> length (trim s) \<and> length s \<le> 255
      \<and> opt_string (map_of props ''description'') \<and> opt_boolean (map_of props ''completed'')
    \<longrightarrow> validateCreateTask (JObj props) =
          Next \<lparr>req_title = trim s,
                 req_description = string_of (map_of props ''description''),
                 req_completed =
                   Some (case boolean_of (map_of props ''completed'') of None \<Rightarrow> False | Some b \<Rightarrow> b)\<rparr>)
   \<and> (string_of (map_of props ''title'') = None
    \<longrightarrow> cites (validateCreateTask (JObj props)) ''title'' msg_title_string)
   \<and> (map_of props ''title'' = Some (JStr [])
    \<longrightarrow> cites (validateCreateTask (JObj props)) ''title'' msg_title_empty)
   \<and> (map_of props ''title'' = Some (JStr s) \<and> 255 < length s
    \<longrightarrow> cites (validateCreateTask (JObj props)) ''title'' msg_title_max)
   \<and> (\<not> opt_string (map_of props ''description'')
    \<longrightarrow> cites (validateCreateTask (JObj props)) ''description'' msg_description_string)
   \<and> (\<not> opt_boolean (map_of props ''completed'')
    \<longrightarrow> cites (validateCreateTask (JObj props)) ''completed'' msg_completed_boolean)
   \<and> (\<forall>r. validateCreateTask (JObj props) = Next r
    \<longrightarrow> (\<exists>u. map_of props ''title'' = Some (JStr u) \<and> req_title r = trim u
            \<and> 1 \<le> length u \<and> length u \<le> 255))"
proof (intro conjI impI allI)
  assume a: "map_of props ''title'' = Some (JStr s) \<and> 1 \<le> length (trim s) \<and> length s \<le> 255
      \<and> opt_string (map_of props ''description'') \<and> opt_boolean (map_of props ''completed'')"
  then have "s \<noteq> []"
    by (auto simp: trim_def)
  with a show "validateCreateTask (JObj props) =
          Next \<lparr>req_title = trim s,
                 req_description = string_of (map_of props ''description''),
                 req_completed =
                   Some (case boolean_of (map_of props ''completed'') of None \<Rightarrow> False | Some b \<Rightarrow> b)\<rparr>"
    by (simp add: validateCreateTask_eq createTaskSchema_eq title_schema_eq)
next
  assume "string_of (map_of props ''title'') = None"
  then show "cites (validateCreateTask (JObj props)) ''title'' msg_title_string"
    by (simp add: validateCreateTask_eq createTaskSchema_eq title_schema_eq issues_at_def)
next
  assume "map_of props ''title'' = Some (JStr [])"
  then show "cites (validateCreateTask (JObj props)) ''title'' msg_title_empty"
    by (simp add: validateCreateTask_eq createTaskSchema_eq title_schema_eq issues_at_def)
next
  assume "map_of props ''title'' = Some (JStr s) \<and> 255 < length s"
  then show "cites (validateCreateTask (JObj props)) ''title'' msg_title_max"
    by (auto simp: validateCreateTask_eq createTaskSchema_eq title_schema_eq issues_at_def)
next
  assume "\<not> opt_string (map_of props ''description'')"
  then show "cites (validateCreateTask (JObj props)) ''description'' msg_description_string"
    by (simp add: validateCreateTask_eq createTaskSchema_eq)
next
  assume "\<not> opt_boolean (map_of props ''completed'')"
  then show "cites (validateCreateTask (JObj props)) ''completed'' msg_completed_boolean"
    by (simp add: validateCreateTask_eq createTaskSchema_eq)
next
  fix r
  assume n: "validateCreateTask (JObj props) = Next r"
  show "\<exists>u. map_of props ''title'' = Some (JStr u) \<and> req_title r = trim u
            \<and> 1 \<le> length u \<and> length u \<le> 255"
  proof (cases "map_of props ''title''" rule: string_of.cases)
    case (1 u)
    with n show ?thesis
      by (auto simp: validateCreateTask_eq createTaskSchema_eq title_schema_eq Let_def Suc_le_eq
          split: if_splits)
  qed (use n in \<open>simp_all add: validateCreateTask_eq createTaskSchema_eq title_schema_eq\<close>)
qed

theorem validateCreateTask_spec_witness:
  "validateCreateTask (JObj [(''title'', JStr (ascii '' Buy milk ''))]) =
     Next \<lparr>req_title = ascii ''Buy milk'', req_description = None, req_completed = Some False\<rparr>
   \<and> cites (validateCreateTask (JObj [])) ''title'' msg_title_string
   \<and> cites (validateCreateTask (JObj [(''title'', JStr [])])) ''title'' msg_title_empty
   \<and> cites (validateCreateTask (JObj [(''title'', JStr (replicate 256 0x61))])) ''title'' msg_title_max
   \<and> cites (validateCreateTask (JObj [(''title'', JStr (ascii ''x'')), (''description'', JNull)]))
        ''description'' msg_description_string
   \<and> cites (validateCreateTask (JObj [(''title'', JStr (ascii ''x'')), (''completed'', JStr (ascii ''yes''))]))
        ''completed'' msg_completed_boolean"
  using validateCreateTask_spec [of "[(''title'', JStr (ascii '' Buy milk ''))]" "ascii '' Buy milk ''"]
    validateCreateTask_spec [of "[]" "[]"]
    validateCreateTask_spec [of "[(''title'', JStr [])]" "[]"]
    validateCreateTask_spec [of "[(''title'', JStr (replicate 256 0x61))]" "replicate 256 0x61"]
    validateCreateTask_spec [of "[(''title'', JStr (ascii ''x'')), (''description'', JNull)]" "ascii ''x''"]
    validateCreateTask_spec [of "[(''title'', JStr (ascii ''x'')), (''completed'', JStr (ascii ''yes''))]" "ascii ''x''"]
  by (simp add: trim_def ascii_def isWhiteSpace_def)

text \<open>
  A title of 256 code units, 255 letters and a trailing space, has a trimmed length of 255
  and is rejected for its length: the trim does not come before the length check.
\<close>

theorem validateCreateTask_padded_title_counterexample:
  "length (trim (replicate 255 0x61 @ [0x20])) = 255
   \<and> validateCreateTask (JObj [(''title'', JStr (replicate 255 0x61 @ [0x20]))]) =
       Respond 400 \<lparr>vb_error = ''ValidationError'', vb_message = msg_invalid_data,
                    vb_details = [(''title'', Custom msg_title_max)]\<rparr>"
  by (simp add: trim_def isWhiteSpace_def validateCreateTask_eq createTaskSchema_eq
      title_schema_eq issues_at_def)

text \<open>
  A title of three spaces passes \<open>.min(1)\<close> on its raw length and leaves the schema as the
  empty string.
\<close>

lemma validateCreateTask_blank_title:
  "validateCreateTask (JObj [(''title'', JStr (ascii ''   ''))]) =
     Next \<lparr>req_title = [], req_description = None, req_completed = Some False\<rparr>"
  by (simp add: trim_def isWhiteSpace_def ascii_def validateCreateTask_eq createTaskSchema_eq
      title_schema_eq)

section \<open>The update schema\<close>

lemma z_optional_title_eq:
  "z_optional title_schema v =
     (if title_passes v then Inr (map_option trim (string_of v))
      else Inl (case string_of v of
                  None \<Rightarrow> [Custom msg_title_string]
                | Some s \<Rightarrow> if s = [] then [Custom msg_title_empty] else [Custom msg_title_max]))"
  by (cases v rule: title_passes.cases)
    (auto simp: z_optional_def title_schema_eq Suc_le_eq)

lemma updateTaskSchema_eq:
  "updateTaskSchema body =
     (let t = property body ''title'';
          d = property body ''description'';
          c = property body ''completed''
      in if title_passes t \<and> opt_string d \<and> opt_boolean c
              \<and> (t \<noteq> None \<or> d \<noteq> None \<or> c \<noteq> None)
         then Inr \<lparr>upd_title = map_option trim (string_of t),
                   upd_description = string_of d,
                   upd_completed = boolean_of c\<rparr>
         else Inl (projl (updateTaskSchema body)))"
proof (cases body)
  case (JObj props)
  show ?thesis
    unfolding JObj
    apply (simp add: updateTaskSchema_def Let_def z_optional_title_eq description_schema_eq
        completed_schema_eq object_keys_def)
    apply (cases "map_of props ''title''" rule: title_passes.cases;
        cases "map_of props ''description''" rule: opt_string.cases;
        cases "map_of props ''completed''" rule: opt_boolean.cases)
    apply simp_all
    done
qed (simp_all add: updateTaskSchema_def)

lemma validateUpdateTask_eq:
  "validateUpdateTask body =
     (case updateTaskSchema body of
        Inr r \<Rightarrow> Next r
      | Inl issues \<Rightarrow>
          Respond 400 \<lparr>vb_error = ''ValidationError'', vb_message = msg_invalid_data,
                       vb_details = map (\<lambda>(p, m). (join_dot p, m)) issues\<rparr>)"
  by (simp add: validateUpdateTask_def validateRequest_def)

lemma validateUpdateTask_cases:
  "(if title_passes (property body ''title'') \<and> opt_string (property body ''description'')
        \<and> opt_boolean (property body ''completed'')
        \<and> (property body ''title'' \<noteq> None \<or> property body ''description'' \<noteq> None
             \<or> property body ''completed'' \<noteq> None)
    then validateUpdateTask body =
          Next \<lparr>upd_title = map_option trim (string_of (property body ''title'')),
                upd_description = string_of (property body ''description''),
                upd_completed = boolean_of (property body ''completed'')\<rparr>
    else fails_validation (validateUpdateTask body))"
proof (cases "title_passes (property body ''title'') \<and> opt_string (property body ''description'')
        \<and> opt_boolean (property body ''completed'')
        \<and> (property body ''title'' \<noteq> None \<or> property body ''description'' \<noteq> None
             \<or> property body ''completed'' \<noteq> None)")
  case True
  then have "validateUpdateTask body =
          Next \<lparr>upd_title = map_option trim (string_of (property body ''title'')),
                upd_description = string_of (property body ''description''),
                upd_completed = boolean_of (property body ''completed'')\<rparr>"
    by (subst validateUpdateTask_eq, subst updateTaskSchema_eq) (simp add: Let_def)
  then show ?thesis
    unfolding if_P [OF True] .
next
  case False
  then have "updateTaskSchema body = Inl (projl (updateTaskSchema body))"
    by (subst updateTaskSchema_eq) (simp add: Let_def)
  then obtain issues where "updateTaskSchema body = Inl issues"
    by blast
  then have "fails_validation (validateUpdateTask body)"
    by (simp add: validateUpdateTask_eq)
  then show ?thesis
    unfolding if_not_P [OF False] .
qed

lemma trim_Nil: "trim [] = []"
  by (simp add: trim_def)

text \<open>
  Claim C6, as the code has it. \<open>validateUpdate\<close> checks the length of a supplied title before
  it trims it. It fails with a \<open>ValidationError\<close> when none of \<open>title\<close>, \<open>description\<close>,
  \<open>completed\<close> is supplied, when the title is supplied and is not a string, is the empty
  string or is longer than 255 code units as supplied, when the description is supplied and
  is not a string, and when \<open>completed\<close> is supplied and is not a boolean. It does not fail
  when at least one of the three is supplied, the title is absent or a string of at most 255
  code units whose trimmed form is not empty, the description is absent or a string and
  \<open>completed\<close> is absent or a boolean. Whenever it does not fail, its result holds exactly the
  supplied fields, the title trimmed, and a supplied title had 1 to 255 code units.
\<close>

theorem validateUpdateTask_spec:
  "((property body ''title'' = None \<and> property body ''description'' = None
       \<and> property body ''completed'' = None)
     \<or> (property body ''title'' \<noteq> None \<and> string_of (property body ''title'') = None)
     \<or> property body ''title'' = Some (JStr [])
     \<or> (property body ''title'' = Some (JStr s) \<and> 255 < length s)
     \<or> \<not> opt_string (property body ''description'')
     \<or> \<not> opt_boolean (property body ''completed'')
    \<longrightarrow> fails_validation (validateUpdateTask body))
   \<and> ((property body ''title'' \<noteq> None \<or> property body ''description'' \<noteq> None
         \<or> property body ''completed'' \<noteq> None)
       \<and> (property body ''title'' = None
           \<or> property body ''title'' = Some (JStr s) \<and> 1 \<le> length (trim s) \<and> length s \<le> 255)
       \<and> opt_string (property body ''description'')
       \<and> opt_boolean (property body ''completed'')
    \<longrightarrow> \<not> fails_validation (validateUpdateTask body))
   \<and> (\<not> fails_validation (validateUpdateTask body) \<longrightarrow>
        validateUpdateTask body =
          Next \<lparr>upd_title = map_option trim (string_of (property body ''title'')),
                upd_description = string_of (property body ''description''),
                upd_completed = boolean_of (property body ''completed'')\<rparr>
        \<and> (string_of (property body ''title'') = None \<longleftrightarrow> property body ''title'' = None)
        \<and> (string_of (property body ''description'') = None
             \<longleftrightarrow> property body ''description'' = None)
        \<and> (boolean_of (property body ''completed'') = None
             \<longleftrightarrow> property body ''completed'' = None)
        \<and> title_passes (property body ''title''))"
proof -
  let ?t = "property body ''title''" and ?d = "property body ''description''"
    and ?c = "property body ''completed''"
  note cs = validateUpdateTask_cases [of body]
  have t: "title_passes ?t \<Longrightarrow> (string_of ?t = None \<longleftrightarrow> ?t = None)"
    by (cases ?t rule: title_passes.cases) simp_all
  have d: "opt_string ?d \<Longrightarrow> (string_of ?d = None \<longleftrightarrow> ?d = None)"
    by (cases ?d rule: opt_string.cases) simp_all
  have c: "opt_boolean ?c \<Longrightarrow> (boolean_of ?c = None \<longleftrightarrow> ?c = None)"
    by (cases ?c rule: opt_boolean.cases) simp_all
  have bad1: "?t \<noteq> None \<Longrightarrow> string_of ?t = None \<Longrightarrow> \<not> title_passes ?t"
    by (cases ?t rule: title_passes.cases) simp_all
  have bad2: "?t = Some (JStr []) \<Longrightarrow> \<not> title_passes ?t"
    by simp
  have bad3: "?t = Some (JStr s) \<Longrightarrow> 255 < length s \<Longrightarrow> \<not> title_passes ?t"
    by simp
  have good: "title_passes ?t"
    if "?t = None \<or> ?t = Some (JStr s) \<and> 1 \<le> length (trim s) \<and> length s \<le> 255"
  proof -
    have "s \<noteq> []" if "1 \<le> length (trim s)"
      using that by (auto simp: trim_Nil)
    with \<open>?t = None \<or> ?t = Some (JStr s) \<and> 1 \<le> length (trim s) \<and> length s \<le> 255\<close>
    show ?thesis
      by (auto simp: Suc_le_eq)
  qed
  show ?thesis
  proof (intro conjI impI)
    assume "(?t = None \<and> ?d = None \<and> ?c = None)
     \<or> (?t \<noteq> None \<and> string_of ?t = None)
     \<or> ?t = Some (JStr [])
     \<or> (?t = Some (JStr s) \<and> 255 < length s)
     \<or> \<not> opt_string ?d
     \<or> \<not> opt_boolean ?c"
    with bad1 bad2 bad3 have n: "\<not> (title_passes ?t \<and> opt_string ?d \<and> opt_boolean ?c
        \<and> (?t \<noteq> None \<or> ?d \<noteq> None \<or> ?c \<noteq> None))"
      by auto
    from cs show "fails_validation (validateUpdateTask body)"
      unfolding if_not_P [OF n] .
  next
    assume "(?t \<noteq> None \<or> ?d \<noteq> None \<or> ?c \<noteq> None)
       \<and> (?t = None \<or> ?t = Some (JStr s) \<and> 1 \<le> length (trim s) \<and> length s \<le> 255)
       \<and> opt_string ?d \<and> opt_boolean ?c"
    with good have y: "title_passes ?t \<and> opt_string ?d \<and> opt_boolean ?c
        \<and> (?t \<noteq> None \<or> ?d \<noteq> None \<or> ?c \<noteq> None)"
      by auto
    from cs have "validateUpdateTask body =
          Next \<lparr>upd_title = map_option trim (string_of ?t), upd_description = string_of ?d,
                upd_completed = boolean_of ?c\<rparr>"
      unfolding if_P [OF y] .
    then show "\<not> fails_validation (validateUpdateTask body)"
      by simp
  next
    assume n: "\<not> fails_validation (validateUpdateTask body)"
    have ok: "title_passes ?t \<and> opt_string ?d \<and> opt_boolean ?c
        \<and> (?t \<noteq> None \<or> ?d \<noteq> None \<or> ?c \<noteq> None)"
    proof (rule ccontr)
      assume no: "\<not> (title_passes ?t \<and> opt_string ?d \<and> opt_boolean ?c
        \<and> (?t \<noteq> None \<or> ?d \<noteq> None \<or> ?c \<noteq> None))"
      from cs have "fails_validation (validateUpdateTask body)"
        unfolding if_not_P [OF no] .
      with n show False
        by simp
    qed
    from cs show "validateUpdateTask body =
          Next \<lparr>upd_title = map_option trim (string_of ?t), upd_description = string_of ?d,
                upd_completed = boolean_of ?c\<rparr>"
      unfolding if_P [OF ok] .
    from ok t show "string_of ?t = None \<longleftrightarrow> ?t = None"
      by blast
    from ok d show "string_of ?d = None \<longleftrightarrow> ?d = None"
      by blast
    from ok c show "boolean_of ?c = None \<longleftrightarrow> ?c = None"
      by blast
    from ok show "title_passes ?t"
      by blast
  qed
qed

theorem validateUpdateTask_spec_witness:
  "fails_validation (validateUpdateTask (JObj [(''other'', JBool True)]))
   \<and> fails_validation (validateUpdateTask (JObj [(''title'', JNum 3)]))
   \<and> fails_validation (validateUpdateTask (JObj [(''title'', JStr [])]))
   \<and> fails_validation (validateUpdateTask (JObj [(''title'', JStr (replicate 256 0x61))]))
   \<and> fails_validation (validateUpdateTask (JObj [(''title'', JStr (ascii ''x'')), (''completed'', JNull)]))
   \<and> validateUpdateTask (JObj [(''title'', JStr (ascii '' Buy bread '')), (''completed'', JBool True)]) =
       Next \<lparr>upd_title = Some (ascii ''Buy bread''), upd_description = None,
             upd_completed = Some True\<rparr>"
  using validateUpdateTask_spec [of "JObj [(''other'', JBool True)]" "[]"]
    validateUpdateTask_spec [of "JObj [(''title'', JNum 3)]" "[]"]
    validateUpdateTask_spec [of "JObj [(''title'', JStr [])]" "[]"]
    validateUpdateTask_spec [of "JObj [(''title'', JStr (replicate 256 0x61))]" "replicate 256 0x61"]
    validateUpdateTask_spec [of "JObj [(''title'', JStr (ascii ''x'')), (''completed'', JNull)]"
      "ascii ''x''"]
    validateUpdateTask_spec
      [of "JObj [(''title'', JStr (ascii '' Buy bread '')), (''completed'', JBool True)]"
        "ascii '' Buy bread ''"]
  by (simp add: ascii_def trim_def isWhiteSpace_def)

text \<open>
  A title of 256 code units, 255 letters and a trailing space, is supplied alone. It keeps
  the rule of the specification, its trimmed length being 255, and the update is rejected.
\<close>

theorem validateUpdateTask_padded_title_counterexample:
  "title_rule (Some (JStr (replicate 255 0x61 @ [0x20])))
   \<and> validateUpdateTask (JObj [(''title'', JStr (replicate 255 0x61 @ [0x20]))]) =
       Respond 400 \<lparr>vb_error = ''ValidationError'', vb_message = msg_invalid_data,
                    vb_details = [(''title'', Custom msg_title_max)]\<rparr>"
  by (simp add: trim_def isWhiteSpace_def validateUpdateTask_eq updateTaskSchema_def
      z_optional_def title_schema_eq description_schema_eq completed_schema_eq issues_at_def)

text \<open>
  A title of three spaces passes \<open>.min(1)\<close> on its raw length and leaves the update schema as
  the empty string.
\<close>

lemma validateUpdateTask_blank_title:
  "validateUpdateTask (JObj [(''title'', JStr (ascii ''   ''))]) =
     Next \<lparr>upd_title = Some [], upd_description = None, upd_completed = None\<rparr>"
  using validateUpdateTask_cases [of "JObj [(''title'', JStr (ascii ''   ''))]"]
  by (simp add: trim_def isWhiteSpace_def ascii_def)

section \<open>The id parameter\<close>

lemma decimal_snoc: "decimal (s @ [c]) = 10 * decimal s + digit_value c"
  by (simp add: decimal_def)

lemma unat_digit_char: "d < 10 \<Longrightarrow> unat (digit_char d) = 48 + d"
  by (simp add: digit_char_def unat_word_ariths unat_of_nat)

lemma digit_value_char: "d < 10 \<Longrightarrow> digit_value (digit_char d) = d"
  by (simp add: digit_value_def unat_digit_char)

lemma isDigit_unat: "isDigit c \<longleftrightarrow> 48 \<le> unat c \<and> unat c \<le> 57"
  by (simp add: isDigit_def word_le_nat_alt)

lemma digit_char_value: "isDigit c \<Longrightarrow> digit_char (digit_value c) = c"
proof -
  assume "isDigit c"
  then have "48 + (unat c - 48) = unat c"
    by (simp add: isDigit_unat)
  then have "(of_nat (48 + (unat c - 48)) :: 16 word) = of_nat (unat c)"
    by (rule arg_cong)
  then show ?thesis
    by (simp add: digit_char_def digit_value_def)
qed

lemma digit_value_less: "isDigit c \<Longrightarrow> digit_value c < 10"
  by (auto simp: digit_value_def isDigit_unat)

lemma decimal_digits: "decimal (digits n) = n"
proof (induction n rule: digits.induct)
  case (1 n)
  show ?case
  proof (cases "n < 10")
    case True
    then show ?thesis
      by (simp add: digits.simps [of n] decimal_def digit_value_char)
  next
    case False
    with 1 show ?thesis
      by (simp add: digits.simps [of n] decimal_snoc digit_value_char)
  qed
qed

lemma digits_step: "0 < a \<Longrightarrow> d < 10 \<Longrightarrow> digits (10 * a + d) = digits a @ [digit_char d]"
  by (simp add: digits.simps [of "10 * a + d"])

lemma positive_pattern_decimal: "positive_pattern s \<Longrightarrow> 0 < decimal s \<and> digits (decimal s) = s"
proof (induction s rule: rev_induct)
  case Nil
  then show ?case by simp
next
  case (snoc c s)
  show ?case
  proof (cases s)
    case Nil
    with snoc.prems have c: "0x31 \<le> c" "c \<le> 0x39" by simp_all
    then have d: "isDigit c" and "0 < digit_value c"
      by (auto simp: isDigit_unat digit_value_def word_le_nat_alt)
    with Nil d show ?thesis
      by (simp add: decimal_def digits.simps [of "digit_value c"] digit_value_less digit_char_value)
  next
    case (Cons a list)
    with snoc.prems have p: "positive_pattern s" and d: "isDigit c"
      by simp_all
    with snoc.IH have ih: "0 < decimal s" "digits (decimal s) = s" by simp_all
    with d show ?thesis
      by (simp add: decimal_snoc digits_step digit_value_less digit_char_value)
  qed
qed

lemma validateTaskId_reject:
  "\<not> digits_only s \<or> decimal s = 0 \<Longrightarrow> validateTaskId s = Respond 400 invalid_id_body"
  by (auto simp: validateTaskId_def parseInt10_def Let_def)

lemma validateTaskId_pass:
  "digits_only s \<Longrightarrow> 0 < decimal s \<Longrightarrow>
     validateTaskId s = Next (if decimal s \<le> 2 ^ 53 then Some (digits (decimal s)) else None)"
  by (auto simp: validateTaskId_def parseInt10_def Let_def)

lemma positive_pattern_digits_only: "positive_pattern s \<Longrightarrow> digits_only s"
  by (cases s) (auto simp: digits_only_def isDigit_unat word_le_nat_alt)

text \<open>
  Claim C2, as the code has it. \<open>validateId\<close> tests the pattern \<open>^\d+$\<close> and then the value:
  a string that is not all digits, or whose value is zero, fails with the 400
  \<open>ValidationError\<close> on field \<open>id\<close>; a string of digits with a value above zero passes, leading
  zeros or not, and up to \<open>2 ^ 53\<close> the id it passes on is the decimal form of that value,
  which reads back as the same value. A string matching \<open>^[1-9]\d*$\<close> is such a string and
  is its own decimal form. \<open>12.5\<close>, \<open>-1\<close> and \<open>0\<close> fail; \<open>7\<close> passes as 7.
\<close>

theorem validateTaskId_spec:
  "(\<not> digits_only s \<or> decimal s = 0
      \<longrightarrow> validateTaskId s = Respond 400 invalid_id_body
          \<and> cites (validateTaskId s) ''id'' msg_id_positive)
   \<and> (digits_only s \<and> 0 < decimal s \<longrightarrow> (\<exists>p. validateTaskId s = Next p))
   \<and> (digits_only s \<and> 0 < decimal s \<and> decimal s \<le> 2 ^ 53
      \<longrightarrow> validateTaskId s = Next (Some (digits (decimal s)))
          \<and> decimal (digits (decimal s)) = decimal s)
   \<and> (positive_pattern s \<longrightarrow> digits_only s \<and> 0 < decimal s \<and> digits (decimal s) = s)
   \<and> validateTaskId (ascii ''12.5'') = Respond 400 invalid_id_body
   \<and> validateTaskId (ascii ''-1'') = Respond 400 invalid_id_body
   \<and> validateTaskId (ascii ''0'') = Respond 400 invalid_id_body
   \<and> validateTaskId (ascii ''7'') = Next (Some (ascii ''7''))"
proof (intro conjI impI)
  assume a: "\<not> digits_only s \<or> decimal s = 0"
  then show "validateTaskId s = Respond 400 invalid_id_body"
    by (rule validateTaskId_reject)
  then show "cites (validateTaskId s) ''id'' msg_id_positive"
    by (simp add: invalid_id_body_def)
next
  assume "digits_only s \<and> 0 < decimal s"
  then show "\<exists>p. validateTaskId s = Next p"
    by (simp add: validateTaskId_pass)
next
  assume "digits_only s \<and> 0 < decimal s \<and> decimal s \<le> 2 ^ 53"
  then show "validateTaskId s = Next (Some (digits (decimal s)))"
    by (simp add: validateTaskId_pass)
next
  show "decimal (digits (decimal s)) = decimal s"
    by (rule decimal_digits)
next
  assume p: "positive_pattern s"
  then show "digits_only s"
    by (rule positive_pattern_digits_only)
  from p show "0 < decimal s" and "digits (decimal s) = s"
    by (simp_all add: positive_pattern_decimal)
next
  show "validateTaskId (ascii ''12.5'') = Respond 400 invalid_id_body"
    by (rule validateTaskId_reject) (simp add: digits_only_def isDigit_def ascii_def)
  show "validateTaskId (ascii ''-1'') = Respond 400 invalid_id_body"
    by (rule validateTaskId_reject) (simp add: digits_only_def isDigit_def ascii_def)
  show "validateTaskId (ascii ''0'') = Respond 400 invalid_id_body"
    by (rule validateTaskId_reject) (simp add: decimal_def digit_value_def ascii_def)
  show "validateTaskId (ascii ''7'') = Next (Some (ascii ''7''))"
    by (simp add: validateTaskId_def digits_only_def isDigit_def ascii_def parseInt10_def
        decimal_def digit_value_def digit_char_def digits.simps)
qed

theorem validateTaskId_spec_witness:
  "validateTaskId (ascii ''abc'') = Respond 400 invalid_id_body
   \<and> validateTaskId (ascii ''00'') = Respond 400 invalid_id_body
   \<and> validateTaskId (ascii ''007'') = Next (Some (ascii ''7''))
   \<and> validateTaskId (ascii ''42'') = Next (Some (ascii ''42''))"
  using validateTaskId_spec [of "ascii ''abc''"] validateTaskId_spec [of "ascii ''00''"]
    validateTaskId_spec [of "ascii ''007''"] validateTaskId_spec [of "ascii ''42''"]
  by (simp add: digits_only_def isDigit_def ascii_def decimal_def digit_value_def
      digit_char_def digits.simps)

text \<open>\<open>007\<close> does not match \<open>^[1-9]\d*$\<close>, and it passes, as the id 7.\<close>

theorem validateTaskId_leading_zeros_counterexample:
  "\<not> positive_pattern (ascii ''007'')
   \<and> validateTaskId (ascii ''007'') = Next (Some (ascii ''7''))"
  by (simp add: validateTaskId_def digits_only_def isDigit_def ascii_def parseInt10_def
      decimal_def digit_value_def digit_char_def digits.simps)

section \<open>The error handler\<close>

lemma handleDatabaseError_eq:
  "handleDatabaseError tr de =
     \<lparr>err_message = err_message (handleDatabaseError tr de),
      err_statusCode =
        Some (if (case drv_message de of None \<Rightarrow> False
                  | Some m \<Rightarrow> includes_js m (ascii ''connection''))
              then 500
              else if drv_code de = Some (ascii ''23502'') \<or> drv_code de = Some (ascii ''23505'')
              then 400 else 500),
      err_details = err_details (handleDatabaseError tr de),
      err_stack = Some tr\<rparr>
   \<and> (\<exists>ps. err_details (handleDatabaseError tr de) = Some (JObj ps))
   \<and> err_message (handleDatabaseError tr de) \<noteq> []"
  apply (cases "drv_message de")
   apply (simp_all add: handleDatabaseError_def createError_def)
   apply (simp_all add: ascii_def)
  done

lemma errorHandler_sent:
  "errorHandler False env err =
     (let st = (case err_statusCode err of None \<Rightarrow> 500 | Some c \<Rightarrow> if c = 0 then 500 else c);
          lg = (if st \<ge> 500 then Some LogError else if st \<ge> 400 then Some LogWarn else None)
      in if st < 100 \<or> 999 < st then StatusRangeError lg st
         else
           Sent lg st
             \<lparr>error = (if st = 400 then ''ValidationError''
                       else if st = 404 then ''NotFoundError'' else ''InternalServerError''),
              message = (if err_message err = [] then msg_default_error else err_message err),
              details = (case err_details err of None \<Rightarrow> None
                         | Some d \<Rightarrow> if truthy d then Some d else None),
              stack = (if env = Some (ascii ''development'') \<and> st \<ge> 500
                       then err_stack err else None)\<rparr>)"
  by (simp add: errorHandler_def Let_def)

lemma msg_default_error_nonempty: "msg_default_error \<noteq> []"
  by (simp add: msg_default_error_def)

text \<open>
  Claim C3, as the code has it. When the response has not begun, the handler answers with
  the status code of the error whenever that is a code from 400 to 999, whichever it is, and
  with 500 when the error has none (or has 0); for a code below 100 or above 999
  \<open>res.status\<close> raises a \<open>RangeError\<close> and nothing is sent. The error name follows the status
  alone: \<open>ValidationError\<close> for 400, \<open>NotFoundError\<close> for 404, \<open>InternalServerError\<close> for every
  other status. It logs a warning for a status from 400 to 499 and an error from 500 on. In
  every body the message is not empty, and \<open>details\<close> is there exactly when the error
  carries details that are truthy, whatever the status. An error built by \<open>handleDatabaseError\<close> always carries a details
  object: the handler answers it with status 500 for a connection failure and for any other
  driver error, and with status 400 under the name \<open>ValidationError\<close> for the constraint
  codes 23502 and 23505.
\<close>

theorem errorHandler_spec:
  "(err_statusCode err = Some c \<and> 400 \<le> c \<and> c \<le> 999
      \<longrightarrow> (\<exists>b. errorHandler False env err =
                 Sent (if 500 \<le> c then Some LogError else Some LogWarn) c b
               \<and> error b = (if c = 400 then ''ValidationError''
                            else if c = 404 then ''NotFoundError''
                            else ''InternalServerError'')))
   \<and> (err_statusCode err = None \<or> err_statusCode err = Some 0
      \<longrightarrow> (\<exists>b. errorHandler False env err = Sent (Some LogError) 500 b
               \<and> error b = ''InternalServerError''))
   \<and> (err_statusCode err = Some c \<and> c \<noteq> 0 \<and> (c < 100 \<or> 999 < c)
      \<longrightarrow> errorHandler False env err =
            StatusRangeError (if 500 \<le> c then Some LogError else None) c)
   \<and> (\<forall>lg st b. errorHandler False env err = Sent lg st b
      \<longrightarrow> message b \<noteq> []
          \<and> (err_message err \<noteq> [] \<longrightarrow> message b = err_message err)
          \<and> details b = (case err_details err of None \<Rightarrow> None
                          | Some d \<Rightarrow> if truthy d then Some d else None))
   \<and> (\<exists>lg st b ps. errorHandler False env (handleDatabaseError tr de) = Sent lg st b
          \<and> details b = Some (JObj ps)
          \<and> st = (if (case drv_message de of None \<Rightarrow> False
                       | Some m \<Rightarrow> includes_js m (ascii ''connection''))
                   then 500
                   else if drv_code de = Some (ascii ''23502'') \<or> drv_code de = Some (ascii ''23505'')
                   then 400 else 500)
          \<and> error b = (if st = 400 then ''ValidationError'' else ''InternalServerError''))"
proof (intro conjI impI allI)
  assume "err_statusCode err = Some c \<and> 400 \<le> c \<and> c \<le> 999"
  then show "\<exists>b. errorHandler False env err =
                 Sent (if 500 \<le> c then Some LogError else Some LogWarn) c b
               \<and> error b = (if c = 400 then ''ValidationError''
                            else if c = 404 then ''NotFoundError''
                            else ''InternalServerError'')"
    by (simp add: errorHandler_sent Let_def)
next
  assume "err_statusCode err = None \<or> err_statusCode err = Some 0"
  then show "\<exists>b. errorHandler False env err = Sent (Some LogError) 500 b
               \<and> error b = ''InternalServerError''"
    by (auto simp: errorHandler_sent)
next
  assume "err_statusCode err = Some c \<and> c \<noteq> 0 \<and> (c < 100 \<or> 999 < c)"
  then show "errorHandler False env err =
            StatusRangeError (if 500 \<le> c then Some LogError else None) c"
    by (auto simp: errorHandler_sent Let_def)
next
  fix lg st b
  assume s: "errorHandler False env err = Sent lg st b"
  then have m: "message b = (if err_message err = [] then msg_default_error else err_message err)"
    and d: "details b = (case err_details err of None \<Rightarrow> None
                          | Some d \<Rightarrow> if truthy d then Some d else None)"
    by (auto simp: errorHandler_sent Let_def split: if_splits)
  from m show "message b \<noteq> []"
    by (simp add: msg_default_error_nonempty)
  from d show "details b = (case err_details err of None \<Rightarrow> None
                          | Some d \<Rightarrow> if truthy d then Some d else None)" .
  assume "err_message err \<noteq> []"
  with m show "message b = err_message err"
    by simp
next
  let ?e = "handleDatabaseError tr de"
  let ?st = "if (case drv_message de of None \<Rightarrow> False
                       | Some m \<Rightarrow> includes_js m (ascii ''connection''))
                   then 500
                   else if drv_code de = Some (ascii ''23502'') \<or> drv_code de = Some (ascii ''23505'')
                   then 400 else (500::int)"
  from handleDatabaseError_eq [of tr de]
  obtain ps where sc: "err_statusCode ?e = Some ?st" and d: "err_details ?e = Some (JObj ps)"
    by (metis custom_error.select_convs(2))
  have "\<exists>lg b. errorHandler False env ?e = Sent lg ?st b \<and> details b = Some (JObj ps)
          \<and> error b = (if ?st = 400 then ''ValidationError'' else ''InternalServerError'')"
    unfolding errorHandler_sent [of env ?e] sc d
    by (simp add: Let_def)
  then show "\<exists>lg st b ps. errorHandler False env ?e = Sent lg st b
          \<and> details b = Some (JObj ps) \<and> st = ?st
          \<and> error b = (if st = 400 then ''ValidationError'' else ''InternalServerError'')"
    by blast
qed

text \<open>A connection failure is answered with status 500 and a populated \<open>details\<close>.\<close>

theorem errorHandler_database_details_counterexample:
  "errorHandler False None
     (handleDatabaseError [] \<lparr>drv_message = Some (ascii ''connection refused''), drv_code = None\<rparr>) =
   Sent (Some LogError) 500
     \<lparr>error = ''InternalServerError'',
      message = ascii ''Erro ao conectar com o banco de dados'',
      details = Some (JObj [(''type'', JStr (ascii ''database_connection_error''))]),
      stack = None\<rparr>"
  by (simp add: errorHandler_sent handleDatabaseError_def createError_def ascii_def)

theorem errorHandler_spec_witness:
  "(\<exists>b. errorHandler False None
          (createError [] (ascii ''Dados'') 400 (Some (JArr [JObj [(''field'', JStr (ascii ''title''))]]))) =
        Sent (Some LogWarn) 400 b
        \<and> error b = ''ValidationError''
        \<and> details b = Some (JArr [JObj [(''field'', JStr (ascii ''title''))]]))
   \<and> (\<exists>b. errorHandler False None (createError [] (ascii ''Tarefa'') 404 (Some (JStr (ascii ''x'')))) =
        Sent (Some LogWarn) 404 b
        \<and> error b = ''NotFoundError'' \<and> details b = Some (JStr (ascii ''x'')))
   \<and> (\<exists>b. errorHandler False None (createError [] (ascii ''Proibido'') 403 None) =
        Sent (Some LogWarn) 403 b
        \<and> error b = ''InternalServerError'' \<and> details b = None)
   \<and> (\<exists>b. errorHandler False None
          \<lparr>err_message = ascii ''boom'', err_statusCode = None, err_details = None, err_stack = None\<rparr> =
        Sent (Some LogError) 500 b
        \<and> error b = ''InternalServerError'' \<and> message b = ascii ''boom'' \<and> details b = None)
   \<and> errorHandler False None (createError [] (ascii ''boom'') 1000 None) =
        StatusRangeError (Some LogError) 1000
   \<and> errorHandler False None (createError [] (ascii ''boom'') 42 None) =
        StatusRangeError None 42"
  using errorHandler_spec
    [where err = "createError [] (ascii ''Dados'') 400
                    (Some (JArr [JObj [(''field'', JStr (ascii ''title''))]]))"
      and c = 400 and env = None and tr = "[]" and de = "\<lparr>drv_message = None, drv_code = None\<rparr>"]
    errorHandler_spec
    [where err = "createError [] (ascii ''Tarefa'') 404 (Some (JStr (ascii ''x'')))"
      and c = 404 and env = None and tr = "[]" and de = "\<lparr>drv_message = None, drv_code = None\<rparr>"]
    errorHandler_spec
    [where err = "createError [] (ascii ''Proibido'') 403 None"
      and c = 403 and env = None and tr = "[]" and de = "\<lparr>drv_message = None, drv_code = None\<rparr>"]
    errorHandler_spec
    [where err = "\<lparr>err_message = ascii ''boom'', err_statusCode = None, err_details = None,
                    err_stack = None\<rparr>"
      and c = 500 and env = None and tr = "[]" and de = "\<lparr>drv_message = None, drv_code = None\<rparr>"]
    errorHandler_spec
    [where err = "createError [] (ascii ''boom'') 1000 None"
      and c = 1000 and env = None and tr = "[]" and de = "\<lparr>drv_message = None, drv_code = None\<rparr>"]
    errorHandler_spec
    [where err = "createError [] (ascii ''boom'') 42 None"
      and c = 42 and env = None and tr = "[]" and de = "\<lparr>drv_message = None, drv_code = None\<rparr>"]
  by (simp add: createError_def ascii_def errorHandler_sent)

section \<open>Reading and updating a task\<close>

lemma findById_eq:
  "findById i db =
     (case fault db of
        Some m \<Rightarrow> Inl (Error (ascii ''Erro ao buscar tarefa por ID: '' @ m))
      | None \<Rightarrow>
          if \<not> int4 i
          then Inl (Error (ascii ''Erro ao buscar tarefa por ID: '' @ msg_out_of_range i))
          else Inr (case filter (\<lambda>r. task_id r = i) (rows db) of [] \<Rightarrow> None | r # _ \<Rightarrow> Some r))"
  by (cases "filter (\<lambda>r. task_id r = i) (rows db)")
    (simp_all add: findById_def select_where_id_limit1_def split: option.splits)

lemma findById_Some:
  "findById i db = Inr (Some t) \<Longrightarrow>
     fault db = None \<and> int4 i \<and> task_id t = i \<and> t \<in> set (rows db)
     \<and> (\<exists>rs. filter (\<lambda>r. task_id r = i) (rows db) = t # rs)"
proof -
  assume a: "findById i db = Inr (Some t)"
  then have f: "fault db = None" "int4 i"
    by (simp_all add: findById_eq split: option.splits if_splits)
  with a obtain rs where rs: "filter (\<lambda>r. task_id r = i) (rows db) = t # rs"
    by (auto simp: findById_eq split: list.splits)
  have "t \<in> set (filter (\<lambda>r. task_id r = i) (rows db))"
    unfolding rs by simp
  then have "t \<in> set (rows db) \<and> task_id t = i"
    by (simp only: set_filter mem_Collect_eq)
  with f rs show ?thesis
    by blast
qed

lemma findById_None:
  "fault db = None \<Longrightarrow> int4 i \<Longrightarrow> i \<notin> task_id ` set (rows db) \<Longrightarrow> findById i db = Inr None"
proof -
  assume "fault db = None" and "int4 i" and "i \<notin> task_id ` set (rows db)"
  moreover from this have "filter (\<lambda>r. task_id r = i) (rows db) = []"
    by (auto simp: filter_empty_conv)
  ultimately show ?thesis
    by (simp add: findById_eq)
qed

lemma filter_map_updated:
  "filter (\<lambda>r. task_id r = i) (map (\<lambda>r. if task_id r = i then apply_set u r else r) xs) =
     map (apply_set u) (filter (\<lambda>r. task_id r = i) xs)"
  by (induction xs) (simp_all add: apply_set_def)

lemma filter_map_other:
  "j \<noteq> i \<Longrightarrow>
     filter (\<lambda>r. task_id r = j) (map (\<lambda>r. if task_id r = i then apply_set u r else r) xs) =
     filter (\<lambda>r. task_id r = j) xs"
  by (induction xs) (simp_all add: apply_set_def)

lemma update_found:
  assumes "findById i db = Inr (Some t)"
  shows "update i data now db =
           (Inr (Some (apply_set (update_values_of data now) t)),
            db\<lparr>rows := map (\<lambda>r. if task_id r = i then apply_set (update_values_of data now) r else r)
                         (rows db)\<rparr>)"
proof -
  from findById_Some [OF assms] obtain rs where f: "fault db = None" "int4 i"
    and rs: "filter (\<lambda>r. task_id r = i) (rows db) = t # rs"
    by blast
  show ?thesis
    by (simp add: update_def assms update_returning_def f Let_def filter_map_updated rs
        update_values_of_def)
qed

lemma update_absent:
  "findById i db = Inr None \<Longrightarrow> update i data now db = (Inr None, db)"
  by (simp add: update_def)

lemma deleteTask_absent:
  "findById i db = Inr None \<Longrightarrow> deleteTask i db = (Inr False, db)"
  by (simp add: deleteTask_def)

text \<open>
  Claim C5, as the code has it. While the connection is up, for an id within the range of
  the column \<open>id\<close> (a 32-bit signed integer) that no row has: \<open>getById\<close> returns the absence,
  \<open>update\<close> returns the absence and leaves the database as it is, and \<open>remove\<close> returns false
  and leaves the database as it is. None of them raises.
\<close>

theorem absent_id_spec:
  assumes "fault db = None" and "int4 i" and "i \<notin> task_id ` set (rows db)"
  shows "findById i db = Inr None
         \<and> update i data now db = (Inr None, db)
         \<and> deleteTask i db = (Inr False, db)"
  using findById_None [OF assms] by (simp add: update_absent deleteTask_absent)

theorem absent_id_spec_witness:
  "findById 999999 milk_db = Inr None
   \<and> update 999999 \<lparr>upd_title = Some (ascii ''x''), upd_description = None, upd_completed = None\<rparr>
        2000 milk_db = (Inr None, milk_db)
   \<and> deleteTask 999999 milk_db = (Inr False, milk_db)"
proof -
  have a: "fault milk_db = None" and r: "int4 999999"
    and b: "999999 \<notin> task_id ` set (rows milk_db)"
    by (simp_all add: milk_db_def milk_def int4_def)
  show ?thesis
    by (rule absent_id_spec [OF a r b])
qed

text \<open>
  The id 2147483648 passes \<open>validateTaskId\<close> and no row has it, and the connection is up; the
  engine rejects the comparison with the column, so \<open>getById\<close>, \<open>update\<close> and \<open>remove\<close> raise.
\<close>

theorem absent_id_out_of_range_counterexample:
  "validateTaskId (ascii ''2147483648'') = Next (Some (ascii ''2147483648''))
   \<and> rows milk_db = [milk] \<and> task_id milk = 1 \<and> fault milk_db = None
   \<and> findById 2147483648 milk_db =
       Inl (Error (ascii ''Erro ao buscar tarefa por ID: '' @ msg_out_of_range 2147483648))
   \<and> update 2147483648 \<lparr>upd_title = None, upd_description = None, upd_completed = Some True\<rparr>
        2000 milk_db =
       (Inl (Error (ascii ''Erro ao atualizar tarefa: '' @ ascii ''Erro ao buscar tarefa por ID: ''
                    @ msg_out_of_range 2147483648)), milk_db)
   \<and> deleteTask 2147483648 milk_db =
       (Inl (Error (ascii ''Erro ao deletar tarefa: '' @ ascii ''Erro ao buscar tarefa por ID: ''
                    @ msg_out_of_range 2147483648)), milk_db)"
proof -
  have v: "validateTaskId (ascii ''2147483648'') = Next (Some (ascii ''2147483648''))"
    by (simp add: validateTaskId_def digits_only_def isDigit_def ascii_def parseInt10_def
        decimal_def digit_value_def digit_char_def digits.simps)
  have f: "findById 2147483648 milk_db =
       Inl (Error (ascii ''Erro ao buscar tarefa por ID: '' @ msg_out_of_range 2147483648))"
    by (simp add: findById_eq milk_db_def int4_def)
  from v f show ?thesis
    by (simp add: update_def deleteTask_def) (simp add: milk_db_def milk_def)
qed

text \<open>
  Claim C4, as the code has it. For a task that \<open>findById\<close> finds, \<open>update\<close> returns the task
  with \<open>id\<close> and \<open>createdAt\<close> unchanged, each of title, description and completed replaced
  when the command supplies it and unchanged otherwise, and \<open>updatedAt\<close> set to the instant
  the server's clock shows at the call, whatever the fields are. It stores that task, and
  leaves every other id as it was. So \<open>updatedAt\<close> grows strictly when the clock is past the
  previous \<open>updatedAt\<close>, and is at least \<open>createdAt\<close> when the clock is.
\<close>

theorem update_spec:
  assumes "findById i db = Inr (Some t)"
  shows "\<exists>t' db'. update i data now db = (Inr (Some t'), db')
      \<and> task_id t' = task_id t \<and> createdAt t' = createdAt t
      \<and> updatedAt t' = now
      \<and> title t' = (case upd_title data of None \<Rightarrow> title t | Some x \<Rightarrow> x)
      \<and> description t' = (case upd_description data of None \<Rightarrow> description t | Some x \<Rightarrow> Some x)
      \<and> completed t' = (case upd_completed data of None \<Rightarrow> completed t | Some x \<Rightarrow> x)
      \<and> findById i db' = Inr (Some t')
      \<and> (\<forall>j. j \<noteq> i \<longrightarrow> findById j db' = findById j db)
      \<and> map task_id (rows db') = map task_id (rows db)
      \<and> (updatedAt t < now \<longrightarrow> updatedAt t < updatedAt t')
      \<and> (createdAt t \<le> now \<longrightarrow> createdAt t' \<le> updatedAt t')"
proof -
  let ?u = "update_values_of data now"
  let ?t = "apply_set ?u t"
  let ?db = "db\<lparr>rows := map (\<lambda>r. if task_id r = i then apply_set ?u r else r) (rows db)\<rparr>"
  from findById_Some [OF assms] obtain rs where f: "fault db = None" "int4 i"
    and rs: "filter (\<lambda>r. task_id r = i) (rows db) = t # rs"
    by blast
  have u: "update i data now db = (Inr (Some ?t), ?db)"
    by (rule update_found [OF assms])
  have fields: "task_id ?t = task_id t" "createdAt ?t = createdAt t" "updatedAt ?t = now"
    "title ?t = (case upd_title data of None \<Rightarrow> title t | Some x \<Rightarrow> x)"
    "description ?t = (case upd_description data of None \<Rightarrow> description t | Some x \<Rightarrow> Some x)"
    "completed ?t = (case upd_completed data of None \<Rightarrow> completed t | Some x \<Rightarrow> x)"
    by (simp_all add: apply_set_def update_values_of_def split: option.splits)
  have same: "findById i ?db = Inr (Some ?t)"
    by (simp add: findById_eq f filter_map_updated rs)
  have other: "\<forall>j. j \<noteq> i \<longrightarrow> findById j ?db = findById j db"
    by (simp add: findById_eq f filter_map_other)
  have ids: "map task_id (rows ?db) = map task_id (rows db)"
    by (simp add: apply_set_def comp_def cong: map_cong)
  from u fields same other ids show ?thesis
    by simp
qed

theorem update_spec_witness:
  "update 1 \<lparr>upd_title = None, upd_description = None, upd_completed = Some True\<rparr> 2000 milk_db =
     (Inr (Some (milk\<lparr>completed := True, updatedAt := 2000\<rparr>)),
      milk_db\<lparr>rows := [milk\<lparr>completed := True, updatedAt := 2000\<rparr>]\<rparr>)
   \<and> title (milk\<lparr>completed := True, updatedAt := 2000\<rparr>) = ascii ''Buy milk''
   \<and> createdAt milk < updatedAt (milk\<lparr>completed := True, updatedAt := 2000\<rparr>)"
proof -
  have f: "findById 1 milk_db = Inr (Some milk)"
    by (simp add: findById_eq milk_db_def milk_def int4_def)
  have u: "update 1 \<lparr>upd_title = None, upd_description = None, upd_completed = Some True\<rparr> 2000 milk_db =
     (Inr (Some (milk\<lparr>completed := True, updatedAt := 2000\<rparr>)),
      milk_db\<lparr>rows := [milk\<lparr>completed := True, updatedAt := 2000\<rparr>]\<rparr>)"
    unfolding update_found [OF f]
    by (simp add: update_values_of_def apply_set_def milk_db_def milk_def)
  from update_spec [OF f, of "\<lparr>upd_title = None, upd_description = None, upd_completed = Some True\<rparr>" 2000]
    u show ?thesis
    by (simp add: milk_def)
qed

text \<open>
  An update at the very instant of the previous one leaves \<open>updatedAt\<close> equal to its
  previous value, not greater.
\<close>

theorem update_same_instant_counterexample:
  "findById 1 milk_db = Inr (Some milk)
   \<and> updatedAt milk = 1000
   \<and> update 1 \<lparr>upd_title = None, upd_description = None, upd_completed = Some True\<rparr> 1000 milk_db =
       (Inr (Some (milk\<lparr>completed := True\<rparr>)), milk_db\<lparr>rows := [milk\<lparr>completed := True\<rparr>]\<rparr>)
   \<and> updatedAt (milk\<lparr>completed := True\<rparr>) = 1000"
proof -
  have f: "findById 1 milk_db = Inr (Some milk)"
    by (simp add: findById_eq milk_db_def milk_def int4_def)
  have "update 1 \<lparr>upd_title = None, upd_description = None, upd_completed = Some True\<rparr> 1000 milk_db =
       (Inr (Some (milk\<lparr>completed := True\<rparr>)), milk_db\<lparr>rows := [milk\<lparr>completed := True\<rparr>]\<rparr>)"
    unfolding update_found [OF f]
    by (simp add: update_values_of_def apply_set_def milk_db_def milk_def)
  with f show ?thesis
    by (simp add: milk_def)
qed

section \<open>Creating tasks\<close>

lemma create_eq:
  "create now data db =
     (case fault db of
        Some m \<Rightarrow> (Inl (Error (ascii ''Erro ao criar tarefa: '' @ m)), db)
      | None \<Rightarrow>
          if 2147483647 \<le> last_id db
          then (Inl (Error (ascii ''Erro ao criar tarefa: '' @ msg_sequence_exhausted)), db)
          else if task_id (created_row now data db) \<in> task_id ` set (rows db)
          then (Inl (Error (ascii ''Erro ao criar tarefa: '' @ msg_duplicate_key)),
                db\<lparr>last_id := Suc (last_id db)\<rparr>)
          else (Inr (created_row now data db),
                db\<lparr>rows := rows db @ [created_row now data db], last_id := Suc (last_id db)\<rparr>))"
  by (simp add: create_def insert_returning_def created_row_def Let_def split: option.splits)

lemma create_Inr:
  assumes "create now data db = (Inr t, db')"
  shows "t = created_row now data db"
    and "db' = db\<lparr>rows := rows db @ [t], last_id := Suc (last_id db)\<rparr>"
    and "fault db = None"
    and "task_id t \<notin> task_id ` set (rows db)"
    and "last_id db < 2147483647"
  using assms by (auto simp: create_eq split: option.splits if_splits)

lemma create_ok:
  assumes "fault db = None" and "list_all (\<lambda>r. task_id r \<le> int (last_id db)) (rows db)"
    and "last_id db < 2147483647"
  shows "create now data db =
           (Inr (created_row now data db),
            db\<lparr>rows := rows db @ [created_row now data db], last_id := Suc (last_id db)\<rparr>)"
    and "list_all (\<lambda>r. task_id r \<le> int (Suc (last_id db))) (rows db @ [created_row now data db])"
proof -
  from assms(2) have "task_id (created_row now data db) \<notin> task_id ` set (rows db)"
    by (auto simp: created_row_def list_all_iff)
  with assms(1) assms(3)
  show "create now data db =
           (Inr (created_row now data db),
            db\<lparr>rows := rows db @ [created_row now data db], last_id := Suc (last_id db)\<rparr>)"
    by (simp add: create_eq)
  from assms(2)
  show "list_all (\<lambda>r. task_id r \<le> int (Suc (last_id db))) (rows db @ [created_row now data db])"
    by (auto simp: created_row_def list_all_iff)
qed

lemma create_healthy:
  assumes "healthy db"
  shows "create now data db =
           (Inr (created_row now data db),
            db\<lparr>rows := rows db @ [created_row now data db], last_id := Suc (last_id db)\<rparr>)"
    and "Suc (last_id db) < 2147483647 \<Longrightarrow>
         healthy (db\<lparr>rows := rows db @ [created_row now data db], last_id := Suc (last_id db)\<rparr>)"
proof -
  from assms have h: "fault db = None" "list_all (\<lambda>r. task_id r \<le> int (last_id db)) (rows db)"
    "last_id db < 2147483647"
    by (simp_all add: healthy_def)
  show "create now data db =
           (Inr (created_row now data db),
            db\<lparr>rows := rows db @ [created_row now data db], last_id := Suc (last_id db)\<rparr>)"
    by (rule create_ok(1) [OF h])
  assume "Suc (last_id db) < 2147483647"
  with h(1) create_ok(2) [OF h, of now data]
  show "healthy (db\<lparr>rows := rows db @ [created_row now data db], last_id := Suc (last_id db)\<rparr>)"
    by (simp add: healthy_def)
qed

lemma findById_created:
  assumes "create now data db = (Inr t, db')"
  shows "findById (task_id t) db' = Inr (Some t)"
proof -
  note c = create_Inr [OF assms]
  from c(4) have "filter (\<lambda>r. task_id r = task_id t) (rows db) = []"
    unfolding filter_empty_conv by (metis imageI)
  moreover from c(1) c(5) have "int4 (task_id t)"
    by (simp add: created_row_def int4_def)
  ultimately show ?thesis
    by (simp add: findById_eq c(2) c(3))
qed

text \<open>
  Claim C7. Whenever \<open>insert\<close> returns a task, \<open>getById\<close> of its id on the database it leaves
  returns that very task; and on a healthy database \<open>insert\<close> does return a task, for every
  create command, and leaves the database healthy unless it took the last value of the
  sequence.
\<close>

theorem create_then_findById:
  "(\<forall>t db'. create now data db = (Inr t, db') \<longrightarrow> findById (task_id t) db' = Inr (Some t))
   \<and> (healthy db \<longrightarrow>
        (\<exists>t db'. create now data db = (Inr t, db')
           \<and> (last_id db' < 2147483647 \<longrightarrow> healthy db')))"
  using create_healthy [of db now data] by (auto simp: findById_created)

theorem create_then_findById_witness:
  "healthy milk_db
   \<and> create 2000 buy_milk milk_db =
       (Inr (milk\<lparr>task_id := 2, createdAt := 2000, updatedAt := 2000\<rparr>),
        \<lparr>rows = [milk, milk\<lparr>task_id := 2, createdAt := 2000, updatedAt := 2000\<rparr>],
         last_id = 2, fault = None\<rparr>)
   \<and> findById 2 \<lparr>rows = [milk, milk\<lparr>task_id := 2, createdAt := 2000, updatedAt := 2000\<rparr>],
                  last_id = 2, fault = None\<rparr> =
       Inr (Some (milk\<lparr>task_id := 2, createdAt := 2000, updatedAt := 2000\<rparr>))"
proof -
  have h: "healthy milk_db"
    by (simp add: healthy_def milk_db_def milk_def)
  have c: "create 2000 buy_milk milk_db =
       (Inr (milk\<lparr>task_id := 2, createdAt := 2000, updatedAt := 2000\<rparr>),
        \<lparr>rows = [milk, milk\<lparr>task_id := 2, createdAt := 2000, updatedAt := 2000\<rparr>],
         last_id = 2, fault = None\<rparr>)"
    unfolding create_healthy(1) [OF h]
    by (simp add: created_row_def milk_db_def milk_def buy_milk_def)
  from create_then_findById [of 2000 buy_milk milk_db] h c show ?thesis
    by (simp add: milk_def)
qed





lemma createTaskSchema_completed_default:
  assumes "property body ''completed'' = None" and "validateCreateTask body = Next data"
  shows "req_completed data = Some False"
proof (cases body)
  case (JObj props)
  with assms show ?thesis
    by (auto simp: validateCreateTask_eq createTaskSchema_eq Let_def split: if_splits)
qed (use assms in \<open>simp_all add: validateCreateTask_def validateRequest_def createTaskSchema_def\<close>)

text \<open>
  Claim C9. On a healthy database, inserting \<open>{title: "Buy milk", completed: false}\<close> returns a
  task with that title, a null description, \<open>completed\<close> false, an id above zero and
  \<open>createdAt\<close> equal to \<open>updatedAt\<close>. Every task an insert returns has an id above zero and
  equal timestamps, and \<open>completed\<close> false when the command has no \<open>completed\<close>; and a payload
  without \<open>completed\<close> that passes validation is created with \<open>completed\<close> false.
\<close>

theorem create_defaults:
  "(healthy db \<longrightarrow>
      (\<exists>t db'. create now buy_milk db = (Inr t, db')
         \<and> title t = ascii ''Buy milk'' \<and> description t = None \<and> completed t = False
         \<and> 0 < task_id t \<and> createdAt t = updatedAt t))
   \<and> (\<forall>data t db'. create now data db = (Inr t, db')
         \<longrightarrow> 0 < task_id t \<and> createdAt t = updatedAt t
             \<and> (req_completed data = None \<longrightarrow> completed t = False))
   \<and> (\<forall>data t db'. property body ''completed'' = None
           \<and> validateCreateTask body = Next data \<and> create now data db = (Inr t, db')
         \<longrightarrow> completed t = False)"
proof (intro conjI impI allI)
  assume h: "healthy db"
  show "\<exists>t db'. create now buy_milk db = (Inr t, db')
         \<and> title t = ascii ''Buy milk'' \<and> description t = None \<and> completed t = False
         \<and> 0 < task_id t \<and> createdAt t = updatedAt t"
    unfolding create_healthy(1) [OF h]
    by (simp add: created_row_def buy_milk_def)
next
  fix data t db'
  assume c: "create now data db = (Inr t, db')"
  from create_Inr(1) [OF c] show "0 < task_id t" and "createdAt t = updatedAt t"
    by (simp_all add: created_row_def)
  assume "req_completed data = None"
  with create_Inr(1) [OF c] show "completed t = False"
    by (simp add: created_row_def)
next
  fix data t db'
  assume a: "property body ''completed'' = None
           \<and> validateCreateTask body = Next data \<and> create now data db = (Inr t, db')"
  then have "req_completed data = Some False"
    using createTaskSchema_completed_default [of body data] by blast
  moreover from a have "t = created_row now data db"
    by (simp add: create_Inr(1))
  ultimately show "completed t = False"
    by (simp add: created_row_def)
qed

theorem create_defaults_witness:
  "healthy empty_db
   \<and> create 1000 buy_milk empty_db = (Inr milk, milk_db)
   \<and> description milk = None \<and> completed milk = False \<and> 0 < task_id milk
   \<and> createdAt milk = updatedAt milk
   \<and> validateCreateTask (JObj [(''title'', JStr (ascii ''Buy milk''))]) = Next buy_milk"
proof -
  have h: "healthy empty_db"
    by (simp add: healthy_def empty_db_def)
  have c: "create 1000 buy_milk empty_db = (Inr milk, milk_db)"
    unfolding create_healthy(1) [OF h]
    by (simp add: created_row_def buy_milk_def empty_db_def milk_def milk_db_def)
  have v: "validateCreateTask (JObj [(''title'', JStr (ascii ''Buy milk''))]) = Next buy_milk"
    by (simp add: validateCreateTask_eq createTaskSchema_eq title_schema_eq buy_milk_def
        trim_def isWhiteSpace_def ascii_def)
  from create_defaults [of empty_db 1000 "JObj [(''title'', JStr (ascii ''Buy milk''))]"] h c v
  show ?thesis
    by (simp add: milk_def)
qed

text \<open>
  Claim C10. For a create command whose description is the empty string, the task \<open>create\<close>
  returns has a null description, and it is that task that is stored; on a healthy database
  the command does create a task. Validation lets the empty string through as a string.
\<close>

theorem create_empty_description:
  assumes "req_description data = Some []"
  shows "(\<forall>t db'. create now data db = (Inr t, db')
           \<longrightarrow> description t = None \<and> findById (task_id t) db' = Inr (Some t))
         \<and> (healthy db \<longrightarrow> (\<exists>t db'. create now data db = (Inr t, db')))"
proof (intro conjI impI allI)
  fix t db'
  assume c: "create now data db = (Inr t, db')"
  from create_Inr(1) [OF c] assms show "description t = None"
    by (simp add: created_row_def)
  from c show "findById (task_id t) db' = Inr (Some t)"
    by (rule findById_created)
next
  assume "healthy db"
  from create_healthy(1) [OF this] show "\<exists>t db'. create now data db = (Inr t, db')"
    by blast
qed

theorem create_empty_description_witness:
  "validateCreateTask (JObj [(''title'', JStr (ascii ''Buy milk'')), (''description'', JStr [])]) =
     Next (buy_milk\<lparr>req_description := Some []\<rparr>)
   \<and> create 1000 (buy_milk\<lparr>req_description := Some []\<rparr>) empty_db = (Inr milk, milk_db)
   \<and> description milk = None
   \<and> findById 1 milk_db = Inr (Some milk)"
proof -
  have h: "healthy empty_db"
    by (simp add: healthy_def empty_db_def)
  have c: "create 1000 (buy_milk\<lparr>req_description := Some []\<rparr>) empty_db = (Inr milk, milk_db)"
    unfolding create_healthy(1) [OF h]
    by (simp add: created_row_def buy_milk_def empty_db_def milk_def milk_db_def)
  have v: "validateCreateTask (JObj [(''title'', JStr (ascii ''Buy milk'')), (''description'', JStr [])]) =
     Next (buy_milk\<lparr>req_description := Some []\<rparr>)"
    by (simp add: validateCreateTask_eq createTaskSchema_eq title_schema_eq buy_milk_def
        trim_def isWhiteSpace_def ascii_def)
  have d: "req_description (buy_milk\<lparr>req_description := Some []\<rparr>) = Some []"
    by simp
  from create_empty_description [OF d, of 1000 empty_db] h c v show ?thesis
    by (simp add: milk_def)
qed

end
